theory Spec2Isabelle
  imports Complex_Main
begin

section \<open>Numbers, arrays and errors\<close>

text \<open>
  A cell of a numpy array is a double. The model keeps the three special values apart and
  takes a finite value as a real: rounding and the sign of zero are not modelled, and no
  statement below depends on either.
\<close>

datatype fl = NaN | PInf | NInf | Fin real

fun fl_isnan :: "fl \<Rightarrow> bool" where
  "fl_isnan NaN = True"
| "fl_isnan _ = False"

text \<open>\<open>a + b\<close> on doubles: NaN is absorbing, opposite infinities give NaN.\<close>

fun fl_add :: "fl \<Rightarrow> fl \<Rightarrow> fl" where
  "fl_add NaN _ = NaN"
| "fl_add _ NaN = NaN"
| "fl_add PInf NInf = NaN"
| "fl_add NInf PInf = NaN"
| "fl_add PInf _ = PInf"
| "fl_add _ PInf = PInf"
| "fl_add NInf _ = NInf"
| "fl_add _ NInf = NInf"
| "fl_add (Fin a) (Fin b) = Fin (a + b)"

text \<open>\<open>np.divide\<close> on doubles: \<open>0/0\<close> and \<open>inf/inf\<close> are NaN, \<open>x/0\<close> is an infinity.\<close>

fun fl_div :: "fl \<Rightarrow> fl \<Rightarrow> fl" where
  "fl_div NaN _ = NaN"
| "fl_div _ NaN = NaN"
| "fl_div (Fin a) (Fin b) =
     (if b = 0 then (if a = 0 then NaN else if 0 < a then PInf else NInf) else Fin (a / b))"
| "fl_div (Fin a) _ = Fin 0"
| "fl_div PInf (Fin b) = (if b < 0 then NInf else PInf)"
| "fl_div NInf (Fin b) = (if b < 0 then PInf else NInf)"
| "fl_div _ _ = NaN"

text \<open>A two-dimensional numpy array (or the values of a DataFrame): its shape and its cells.\<close>

record ndarray =
  shape0 :: nat
  shape1 :: nat
  item :: "nat \<Rightarrow> nat \<Rightarrow> fl"

datatype pyerror =
    AttributeError
  | IndexError
  | TypeError
  | ZeroDivisionError
  | ValueError
  | IOError
  | OSError
  | KeyError
  | AssertionError string

type_synonym loc = "real \<times> real \<times> real"

section \<open>The Brain object (superEEG/brain.py)\<close>

datatype session_label = SInt int | SStr string

text \<open>
  The \<open>sessions\<close> argument: \<open>None\<close>, a single string or integer, a numpy array (it has
  \<open>ravel\<close>), or a Python list (it has not). The \<open>sample_rate\<close> argument: a list, or a single
  value, where \<open>RateScalar None\<close> is Python's \<open>None\<close>.
\<close>

datatype sessions_arg =
    SessNone
  | SessScalar session_label
  | SessArray "session_label list"
  | SessList "session_label list"

datatype rate_arg = RateList "real option list" | RateScalar "real option"

record brain =
  data :: ndarray
  locs :: "loc list"
  sessions :: "session_label list"
  sample_rate :: "real option list"
  meta :: "string option"
  n_elecs :: nat
  n_secs :: real
  date_created :: string
  n_sessions :: nat
  kurtosis :: "fl list"

text \<open>\<open>pd.DataFrame(data)\<close>: \<open>None\<close> gives the empty frame of shape (0, 0).\<close>

definition DataFrame :: "ndarray option \<Rightarrow> ndarray" where
  "DataFrame d =
     (case d of
        None \<Rightarrow> \<lparr>shape0 = 0, shape1 = 0, item = (\<lambda>i j. NaN)\<rparr>
      | Some a \<Rightarrow> a)"

text \<open>\<open>pd.DataFrame(locs, columns=['x', 'y', 'z'])\<close>: \<open>None\<close> gives a frame with no rows.\<close>

definition DataFrame_xyz :: "loc list option \<Rightarrow> loc list" where
  "DataFrame_xyz l = (case l of None \<Rightarrow> [] | Some ls \<Rightarrow> ls)"

text \<open>Lines 95-102 of \<open>Brain.__init__\<close>: the session label of every sample.\<close>

definition brain_sessions :: "ndarray \<Rightarrow> sessions_arg \<Rightarrow> pyerror + session_label list" where
  "brain_sessions df s =
     (case s of
        SessScalar v \<Rightarrow> Inr (replicate (shape0 df) v)
      | SessNone \<Rightarrow> Inr (replicate (shape0 df) (SInt 1))
      | SessArray xs \<Rightarrow> Inr xs
      | SessList xs \<Rightarrow> Inl AttributeError)"

definition is_sessions_list :: "sessions_arg \<Rightarrow> bool" where
  "is_sessions_list s = (case s of SessList xs \<Rightarrow> True | _ \<Rightarrow> False)"

text \<open>
  Lines 104-113: the sample rate, with the warnings issued. Without a rate, the list holds
  one 1000 for every entry of \<open>self.sessions\<close>.
\<close>

definition brain_sample_rate ::
  "session_label list \<Rightarrow> sessions_arg \<Rightarrow> rate_arg \<Rightarrow> string list \<times> real option list" where
  "brain_sample_rate sess s r =
     (case r of
        RateList l \<Rightarrow> ([], l)
      | RateScalar v \<Rightarrow>
          (if is_sessions_list s then ([], map (\<lambda>x. v) sess)
           else (case v of
                   None \<Rightarrow> ([''No sample rate given.  Setting sample rate to 1000''],
                            map (\<lambda>x. Some 1000) sess)
                 | Some x \<Rightarrow> ([], [Some x]))))"

text \<open>
  Line 120, \<open>self.data.shape[0]/self.sample_rate[0]\<close>, as the true division of
  Python 3 (Python 2 floors the quotient of two integers): an empty list raises
  IndexError, \<open>None\<close> TypeError, a zero rate ZeroDivisionError.
\<close>

definition brain_n_secs :: "ndarray \<Rightarrow> real option list \<Rightarrow> pyerror + real" where
  "brain_n_secs df rate =
     (case rate of
        [] \<Rightarrow> Inl IndexError
      | None # _ \<Rightarrow> Inl TypeError
      | Some x # _ \<Rightarrow> (if x = 0 then Inl ZeroDivisionError else Inr (real (shape0 df) / x)))"

text \<open>
  \<open>Brain.__init__\<close>. The helper \<open>kurt_vals\<close> (module \<open>_helpers.stats\<close>) and the clock
  \<open>time.strftime("%c")\<close> are parameters. The result is the list of warnings issued and the
  Brain, or the exception raised.
\<close>

definition Brain_init ::
  "(brain \<Rightarrow> fl list) \<Rightarrow> string \<Rightarrow> ndarray option \<Rightarrow> loc list option \<Rightarrow> sessions_arg \<Rightarrow>
     rate_arg \<Rightarrow> string option \<Rightarrow> string list \<times> (pyerror + brain)" where
  "Brain_init kurt_vals now d l s r m =
     (let df = DataFrame d; ls = DataFrame_xyz l in
      case brain_sessions df s of
        Inl e \<Rightarrow> ([], Inl e)
      | Inr sess \<Rightarrow>
          (let (warned, rate) = brain_sample_rate sess s r in
           case brain_n_secs df rate of
             Inl e \<Rightarrow> (warned, Inl e)
           | Inr secs \<Rightarrow>
               (let b = \<lparr>data = df, locs = ls, sessions = sess, sample_rate = rate, meta = m,
                         n_elecs = shape1 df, n_secs = secs, date_created = now,
                         n_sessions = length (remdups sess), kurtosis = []\<rparr>
                in (warned, Inr (b\<lparr>kurtosis := kurt_vals b\<rparr>)))))"


section \<open>numpy operations on two-dimensional arrays\<close>

definition np_zeros :: "nat \<Rightarrow> nat \<Rightarrow> ndarray" where
  "np_zeros r c = \<lparr>shape0 = r, shape1 = c, item = (\<lambda>i j. Fin 0)\<rparr>"

text \<open>Broadcasting of one dimension: equal extents, or one of them is 1.\<close>

definition bdim :: "nat \<Rightarrow> nat \<Rightarrow> nat option" where
  "bdim m n = (if m = n then Some m else if m = 1 then Some n else if n = 1 then Some m else None)"

text \<open>A binary ufunc (\<open>np.add\<close>, \<open>np.divide\<close>): ValueError when the shapes do not broadcast.\<close>

definition broadcast2 :: "(fl \<Rightarrow> fl \<Rightarrow> fl) \<Rightarrow> ndarray \<Rightarrow> ndarray \<Rightarrow> pyerror + ndarray" where
  "broadcast2 f a b =
     (case (bdim (shape0 a) (shape0 b), bdim (shape1 a) (shape1 b)) of
        (Some r, Some c) \<Rightarrow>
          Inr \<lparr>shape0 = r, shape1 = c,
               item = (\<lambda>i j. f (item a (if shape0 a = 1 then 0 else i) (if shape1 a = 1 then 0 else j))
                               (item b (if shape0 b = 1 then 0 else i) (if shape1 b = 1 then 0 else j)))\<rparr>
      | _ \<Rightarrow> Inl ValueError)"

definition np_add :: "ndarray \<Rightarrow> ndarray \<Rightarrow> pyerror + ndarray" where
  "np_add = broadcast2 fl_add"

definition np_divide :: "ndarray \<Rightarrow> ndarray \<Rightarrow> pyerror + ndarray" where
  "np_divide = broadcast2 fl_div"

text \<open>
  The value that \<open>a += b\<close> stores into \<open>a\<close>: the broadcast result must have the shape
  of \<open>a\<close>.
\<close>

definition iadd :: "ndarray \<Rightarrow> ndarray \<Rightarrow> pyerror + ndarray" where
  "iadd a b =
     (case np_add a b of
        Inl e \<Rightarrow> Inl e
      | Inr c \<Rightarrow> (if shape0 c = shape0 a \<and> shape1 c = shape1 a then Inr c else Inl ValueError))"

text \<open>\<open>np.fill_diagonal(a, v)\<close>: the cells \<open>a[i, i]\<close> inside the array.\<close>

definition fill_diagonal :: "ndarray \<Rightarrow> fl \<Rightarrow> ndarray" where
  "fill_diagonal a v =
     a\<lparr>item := (\<lambda>i j. if i = j \<and> i < shape0 a \<and> j < shape1 a then v else item a i j)\<rparr>"

fun nan_to_zero :: "fl \<Rightarrow> fl" where
  "nan_to_zero NaN = Fin 0"
| "nan_to_zero x = x"

text \<open>
  \<open>np.nansum(np.dstack((a, b)), 2)\<close>: \<open>dstack\<close> needs equal shapes; the sum along the new
  axis counts a NaN as zero.
\<close>

definition nansum_dstack :: "ndarray \<Rightarrow> ndarray \<Rightarrow> pyerror + ndarray" where
  "nansum_dstack a b =
     (if shape0 a = shape0 b \<and> shape1 a = shape1 b
      then Inr \<lparr>shape0 = shape0 a, shape1 = shape1 a,
                item = (\<lambda>i j. fl_add (nan_to_zero (item a i j)) (nan_to_zero (item b i j)))\<rparr>
      else Inl ValueError)"

text \<open>\<open>d[np.isnan(n)] = 0\<close>: the boolean index must have the shape of \<open>d\<close>.\<close>

definition zero_where_nan :: "ndarray \<Rightarrow> ndarray \<Rightarrow> pyerror + ndarray" where
  "zero_where_nan d n =
     (if shape0 d = shape0 n \<and> shape1 d = shape1 n
      then Inr (d\<lparr>item := (\<lambda>i j. if fl_isnan (item n i j) then Fin 0 else item d i j)\<rparr>)
      else Inl IndexError)"

text \<open>\<open>a[:, p][p, :]\<close>: every index must lie inside both axes.\<close>

definition take2 :: "ndarray \<Rightarrow> nat list \<Rightarrow> pyerror + ndarray" where
  "take2 a p =
     (if list_all (\<lambda>i. i < shape0 a \<and> i < shape1 a) p
      then Inr \<lparr>shape0 = length p, shape1 = length p, item = (\<lambda>i j. item a (p ! i) (p ! j))\<rparr>
      else Inl IndexError)"

text \<open>
  \<open>df[cols]\<close> on a DataFrame whose column labels are the positions \<open>0, 1, ...\<close>: a label
  that is not a column raises KeyError.
\<close>

definition select_columns :: "ndarray \<Rightarrow> nat list \<Rightarrow> pyerror + ndarray" where
  "select_columns d p =
     (if list_all (\<lambda>j. j < shape1 d) p
      then Inr \<lparr>shape0 = shape0 d, shape1 = length p, item = (\<lambda>i j. item d i (p ! j))\<rparr>
      else Inl KeyError)"

definition hstack :: "ndarray \<Rightarrow> ndarray \<Rightarrow> pyerror + ndarray" where
  "hstack a b =
     (if shape0 a = shape0 b
      then Inr \<lparr>shape0 = shape0 a, shape1 = shape1 a + shape1 b,
                item = (\<lambda>i j. if j < shape1 a then item a i j else item b i (j - shape1 a))\<rparr>
      else Inl ValueError)"

text \<open>
  \<open>x[:k, :k] = p\<close> for a \<open>k \<times> k\<close> array \<open>p\<close>: the slice is cut at the shape of \<open>x\<close>, and
  \<open>p\<close> must broadcast to the slice.
\<close>

definition slice_assign :: "ndarray \<Rightarrow> ndarray \<Rightarrow> pyerror + ndarray" where
  "slice_assign x p =
     (let k = shape0 p in
      if (k \<le> shape0 x \<or> k = 1) \<and> (k \<le> shape1 x \<or> k = 1)
      then Inr (x\<lparr>item := (\<lambda>i j. if i < min k (shape0 x) \<and> j < min k (shape1 x)
                                    then item p i j else item x i j)\<rparr>)
      else Inl ValueError)"

text \<open>Index computations of \<open>predict\<close>.\<close>

definition where_true :: "bool list \<Rightarrow> nat list" where
  \<comment> \<open>\<open>np.where(mask)[0]\<close>\<close>
  "where_true bool_mask = [i \<leftarrow> [0..<length bool_mask]. bool_mask ! i]"

definition sorted_set :: "nat list \<Rightarrow> nat list" where
  \<comment> \<open>\<open>sorted(set(xs))\<close>\<close>
  "sorted_set xs = sort (remdups xs)"

definition sorted_range_minus :: "nat \<Rightarrow> nat list \<Rightarrow> nat list" where
  \<comment> \<open>\<open>sorted(set(range(n)) - set(xs))\<close>\<close>
  "sorted_range_minus n xs = sort (remdups [i \<leftarrow> [0..<n]. i \<notin> set xs])"

definition iloc :: "'a list \<Rightarrow> nat list \<Rightarrow> 'a list" where
  \<comment> \<open>\<open>df.iloc[inds]\<close>; every index used below is a position of the indexed frame\<close>
  "iloc xs inds = map (\<lambda>i. xs ! i) inds"

section \<open>The model object (supereeg/model.py)\<close>

text \<open>
  Arrays are Python objects: a Model holds references to its numerator and denominator.
  The store keeps every array and every Model object under its address, so that an
  in-place operation is a write at an address and a new object is a fresh address.
\<close>

record model =
  numerator :: nat
  denominator :: nat
  locs :: "loc list"
  n_subs :: int
  n_locs :: nat
  date_created :: string
  meta :: "string option"

record store =
  arrays :: "ndarray list"
  models :: "model list"

definition alloc :: "store \<Rightarrow> ndarray \<Rightarrow> store \<times> nat" where
  "alloc s a = (s\<lparr>arrays := arrays s @ [a]\<rparr>, length (arrays s))"

definition store_array :: "store \<Rightarrow> nat \<Rightarrow> ndarray \<Rightarrow> store" where
  "store_array s p a = s\<lparr>arrays := (arrays s)[p := a]\<rparr>"

definition new_model :: "store \<Rightarrow> model \<Rightarrow> store \<times> nat" where
  "new_model s m = (s\<lparr>models := models s @ [m]\<rparr>, length (models s))"

datatype match_threshold = Auto | Dist real

datatype data_arg = One brain | Many "brain list"

text \<open>\<open>if type(data) is not list: data = [data]\<close>\<close>

definition as_list :: "data_arg \<Rightarrow> brain list" where
  "as_list d = (case d of One b \<Rightarrow> [b] | Many bs \<Rightarrow> bs)"

text \<open>
  The functions of \<open>supereeg/helpers.py\<close> and \<open>supereeg/load.py\<close>, \<open>scipy.stats.zscore\<close>
  and the clock are not among the sources: they are parameters, taken as functions of
  their arguments that return a value and change nothing. \<open>near_neighbor\<close> receives the
  Model, so it reads the store.
\<close>

record helpers =
  near_neighbor :: "brain \<Rightarrow> store \<Rightarrow> nat \<Rightarrow> match_threshold \<Rightarrow> brain"
  filter_elecs :: "brain \<Rightarrow> string \<Rightarrow> real \<Rightarrow> brain"
  get_corrmat :: "brain \<Rightarrow> ndarray"
  r2z :: "ndarray \<Rightarrow> ndarray"
  z2r :: "ndarray \<Rightarrow> ndarray"
  rbf :: "loc list \<Rightarrow> loc list \<Rightarrow> ndarray"
  expand_corrmat_fit :: "ndarray \<Rightarrow> ndarray \<Rightarrow> ndarray \<times> ndarray"
  expand_corrmat_predict :: "ndarray \<Rightarrow> ndarray \<Rightarrow> ndarray \<times> ndarray"
  timeseries_recon :: "brain \<Rightarrow> ndarray \<Rightarrow> ndarray"
  zscore :: "ndarray \<Rightarrow> ndarray"
  load_nifti_locs :: "string option \<Rightarrow> loc list"
  strftime :: string

text \<open>
  Modelled from the spec: \<open>count_overlapping\<close> of \<open>supereeg/helpers.py\<close>, which is not among
  the sources. It tells, for each reference location, whether it coincides (by coordinate
  equality) with a subject electrode; the line that \<open>predict\<close> keeps as a comment computes
  the same mask.
\<close>

definition count_overlapping :: "loc list \<Rightarrow> loc list \<Rightarrow> bool list" where
  "count_overlapping model_locs bo_locs = map (\<lambda>l. l \<in> set bo_locs) model_locs"

subsection \<open>Model.__init__\<close>

text \<open>Lines 177-187: the attributes set on both paths, and the new object.\<close>

definition attach :: "helpers \<Rightarrow> store \<Rightarrow> nat \<Rightarrow> nat \<Rightarrow> loc list \<Rightarrow> int \<Rightarrow> string option \<Rightarrow>
    string option \<Rightarrow> store \<times> nat" where
  "attach H s num den ls n mt dc =
     new_model s \<lparr>numerator = num, denominator = den, locs = ls, n_subs = n,
                  n_locs = length ls,
                  date_created = (case dc of None \<Rightarrow> strftime H
                                  | Some d \<Rightarrow> (if d = [] then strftime H else d)),
                  meta = mt\<rparr>"

text \<open>
  Lines 144-160: the contribution of one subject to the numerator and the denominator when
  a model is fitted. The diagonal of the correlation matrix is zeroed before \<open>r2z\<close>.
\<close>

definition fit_contribution :: "helpers \<Rightarrow> loc list \<Rightarrow> string \<Rightarrow> real \<Rightarrow> brain \<Rightarrow> ndarray \<times> ndarray" where
  "fit_contribution H ls meas threshold bo0 =
     (let bo = filter_elecs H bo0 meas threshold;
          sub_corrmat = fill_diagonal (get_corrmat H bo) (Fin 0);
          sub_corrmat_z = r2z H sub_corrmat;
          sub_rbf_weights = rbf H ls (brain.locs bo)
      in expand_corrmat_fit H sub_corrmat_z sub_rbf_weights)"

text \<open>Lines 142-166: the loop, adding in place to the two arrays.\<close>

fun fit_loop :: "helpers \<Rightarrow> loc list \<Rightarrow> string \<Rightarrow> real \<Rightarrow> store \<Rightarrow> nat \<Rightarrow> nat \<Rightarrow> brain list \<Rightarrow>
    store \<times> (pyerror + unit)" where
  "fit_loop H ls meas threshold s num den [] = (s, Inr ())"
| "fit_loop H ls meas threshold s num den (bo # bos) =
     (let (num_corrmat_x, denom_corrmat_x) = fit_contribution H ls meas threshold bo in
      case iadd (arrays s ! num) num_corrmat_x of
        Inl e \<Rightarrow> (s, Inl e)
      | Inr a \<Rightarrow>
          (let s1 = store_array s num a in
           case iadd (arrays s1 ! den) denom_corrmat_x of
             Inl e \<Rightarrow> (s1, Inl e)
           | Inr b \<Rightarrow> fit_loop H ls meas threshold (store_array s1 den b) num den bos))"

text \<open>
  \<open>Model.__init__\<close>. Arrays are passed by reference. With numerator, denominator, locs and
  n_subs all given the arrays are attached as they are; otherwise the model is fitted from
  the Brain objects of \<open>data\<close>. (The default \<open>data=None\<close> hands \<open>None\<close> to \<open>filter_elecs\<close>,
  whose code is not among the sources; the type of \<open>data\<close> leaves that call out.)
\<close>

definition Model_init :: "helpers \<Rightarrow> store \<Rightarrow> data_arg \<Rightarrow> loc list option \<Rightarrow> string option \<Rightarrow> string \<Rightarrow>
    real \<Rightarrow> nat option \<Rightarrow> nat option \<Rightarrow> int option \<Rightarrow> string option \<Rightarrow> string option \<Rightarrow>
    store \<times> (pyerror + nat)" where
  "Model_init H s d ls template meas threshold num den n mt dc =
     (if num \<noteq> None \<and> den \<noteq> None \<and> ls \<noteq> None \<and> n \<noteq> None
      then (let (s', r) = attach H s (the num) (the den) (the ls) (the n) mt dc in (s', Inr r))
      else
        (let self_locs = (case ls of None \<Rightarrow> load_nifti_locs H template | Some l \<Rightarrow> l);
             (s1, numerator) = alloc s (np_zeros (length self_locs) (length self_locs));
             (s2, denominator) = alloc s1 (np_zeros (length self_locs) (length self_locs));
             bos = as_list d
         in case fit_loop H self_locs meas threshold s2 numerator denominator bos of
              (s3, Inl e) \<Rightarrow> (s3, Inl e)
            | (s3, Inr u) \<Rightarrow>
                (let (s4, r) = attach H s3 numerator denominator self_locs (int (length bos)) mt dc
                 in (s4, Inr r))))"

subsection \<open>Model.update\<close>

text \<open>
  \<open>copy.deepcopy(self)\<close>: a new object with copies of the arrays. Two attributes that
  refer to one array refer to one copy.
\<close>

definition deepcopy :: "store \<Rightarrow> nat \<Rightarrow> store \<times> nat" where
  "deepcopy s self =
     (let m = models s ! self;
          (s1, a) = alloc s (arrays s ! numerator m);
          (s2, b) = (if denominator m = numerator m then (s1, a)
                     else alloc s1 (arrays s1 ! denominator m))
      in new_model s2 (m\<lparr>numerator := a, denominator := b\<rparr>))"

text \<open>
  Lines 400-410: the contribution of one subject in \<open>update\<close>. Unlike the fit, the
  diagonal of the correlation matrix is not zeroed before \<open>r2z\<close>.
\<close>

definition update_contribution :: "helpers \<Rightarrow> loc list \<Rightarrow> string \<Rightarrow> real \<Rightarrow> brain \<Rightarrow> ndarray \<times> ndarray" where
  "update_contribution H ls meas threshold bo0 =
     (let bo = filter_elecs H bo0 meas threshold;
          sub_corrmat = r2z H (get_corrmat H bo);
          sub_rbf_weights = rbf H ls (brain.locs bo)
      in expand_corrmat_fit H sub_corrmat sub_rbf_weights)"

text \<open>
  Lines 398-422: the loop. \<open>numerator\<close> is rebound to a new array in every round,
  \<open>denominator\<close> is added to in place.
\<close>

fun update_loop :: "helpers \<Rightarrow> loc list \<Rightarrow> string \<Rightarrow> real \<Rightarrow> store \<Rightarrow> nat \<Rightarrow> nat \<Rightarrow> int \<Rightarrow> brain list \<Rightarrow>
    store \<times> (pyerror + nat \<times> nat \<times> int)" where
  "update_loop H ls meas threshold s num den n [] = (s, Inr (num, den, n))"
| "update_loop H ls meas threshold s num den n (bo # bos) =
     (let (num_corrmat_x, denom_corrmat_x0) = update_contribution H ls meas threshold bo in
      case zero_where_nan denom_corrmat_x0 num_corrmat_x of
        Inl e \<Rightarrow> (s, Inl e)
      | Inr denom_corrmat_x \<Rightarrow>
          (case nansum_dstack (arrays s ! num) num_corrmat_x of
             Inl e \<Rightarrow> (s, Inl e)
           | Inr a \<Rightarrow>
               (let (s1, num') = alloc s a in
                case iadd (arrays s1 ! den) denom_corrmat_x of
                  Inl e \<Rightarrow> (s1, Inl e)
                | Inr b \<Rightarrow>
                    update_loop H ls meas threshold (store_array s1 den b) num' den (n + 1) bos)))"

definition update :: "helpers \<Rightarrow> store \<Rightarrow> nat \<Rightarrow> data_arg \<Rightarrow> string \<Rightarrow> real \<Rightarrow> store \<times> (pyerror + nat)" where
  "update H s self d meas threshold =
     (let (s1, m) = deepcopy s self;
          mo = models s1 ! m
      in case update_loop H (model.locs mo) meas threshold s1 (numerator mo) (denominator mo)
                (n_subs mo) (as_list d) of
           (s2, Inl e) \<Rightarrow> (s2, Inl e)
         | (s2, Inr (num, den, n)) \<Rightarrow>
             Model_init H s2 (Many []) (Some (model.locs mo)) None ''kurtosis'' 10
               (Some num) (Some den) (Some n) None None)"

subsection \<open>Model.plot\<close>

text \<open>
  Lines 447-449. The result is the array handed to \<open>sns.heatmap\<close>; the diagonal is
  filled in place, in the array that \<open>z2r\<close> returned.
\<close>

definition plot :: "helpers \<Rightarrow> store \<Rightarrow> nat \<Rightarrow> store \<times> (pyerror + ndarray)" where
  "plot H s self =
     (let m = models s ! self in
      case np_divide (arrays s ! numerator m) (arrays s ! denominator m) of
        Inl e \<Rightarrow> (s, Inl e)
      | Inr q \<Rightarrow>
          (let (s1, corr_mat) = alloc s (z2r H q);
               s2 = store_array s1 corr_mat (fill_diagonal (arrays s1 ! corr_mat) (Fin 1))
           in (s2, Inr (arrays s2 ! corr_mat))))"

subsection \<open>Model.predict\<close>

text \<open>
  The Brain that \<open>predict\<close> returns is built by the constructor of \<open>supereeg/brain.py\<close>,
  which is not among the sources: the result is the record of the arguments it is called
  with.
\<close>

record labelled_brain =
  data :: ndarray
  locs :: "loc list"
  sessions :: "session_label list"
  sample_rate :: "real option list"
  label :: "string list"

text \<open>
  Lines 233-257: the correlation estimate in z space, a new array. With \<open>force_update\<close>
  the contribution of the subject is added to the sums first.
\<close>

definition predict_estimate :: "helpers \<Rightarrow> store \<Rightarrow> nat \<Rightarrow> brain \<Rightarrow> bool \<Rightarrow> store \<times> (pyerror + nat)" where
  "predict_estimate H s self bo force_update =
     (let m = models s ! self in
      if force_update
      then
        (let sub_corrmat = fill_diagonal (get_corrmat H bo) (Fin 0);
             sub_corrmat_z = r2z H sub_corrmat;
             sub_rbf_weights = rbf H (model.locs m) (brain.locs bo);
             (num_corrmat_x, denom_corrmat_x) = expand_corrmat_fit H sub_corrmat_z sub_rbf_weights
         in case np_add (arrays s ! numerator m) num_corrmat_x of
              Inl e \<Rightarrow> (s, Inl e)
            | Inr a \<Rightarrow>
                (case np_add (arrays s ! denominator m) denom_corrmat_x of
                   Inl e \<Rightarrow> (s, Inl e)
                 | Inr b \<Rightarrow>
                     (case np_divide a b of
                        Inl e \<Rightarrow> (s, Inl e)
                      | Inr q \<Rightarrow> (let (s1, model_corrmat_x) = alloc s q in (s1, Inr model_corrmat_x)))))
      else
        (case np_divide (arrays s ! numerator m) (arrays s ! denominator m) of
           Inl e \<Rightarrow> (s, Inl e)
         | Inr q \<Rightarrow> (let (s1, model_corrmat_x) = alloc s q in (s1, Inr model_corrmat_x))))"

text \<open>
  Lines 268-345: the three cases of the alignment. The result is the aligned correlation
  matrix (a new array), the labels, the permuted locations and the subject, whose
  locations and data columns the third case reorders.
\<close>

definition predict_align :: "helpers \<Rightarrow> store \<Rightarrow> loc list \<Rightarrow> nat \<Rightarrow> brain \<Rightarrow> bool list \<Rightarrow>
    store \<times> (pyerror + nat \<times> string list \<times> loc list \<times> brain)" where
  "predict_align H s self_locs model_corrmat_x bo bool_mask =
     (let joint_model_inds = where_true bool_mask;
          bo_locs = brain.locs bo
      in
      if \<not> list_ex id bool_mask then
        (let model_rbf_weights = rbf H (self_locs @ bo_locs) self_locs;
             (num_corrmat_x, denom_corrmat_x) =
                expand_corrmat_predict H (arrays s ! model_corrmat_x) model_rbf_weights
         in case np_divide num_corrmat_x denom_corrmat_x of
              Inl e \<Rightarrow> (s, Inl e)
            | Inr q \<Rightarrow>
                (let (s1, x) = alloc s q;
                     loc_label = replicate (length self_locs) ''reconstructed'' @
                                 replicate (length bo_locs) ''observed'';
                     perm_locs = self_locs @ bo_locs
                 in (s1, Inr (x, loc_label, perm_locs, bo))))
      else if length (filter id bool_mask) = length bo_locs then
        (let perm_inds = sorted_range_minus (length self_locs) joint_model_inds @
                         sorted_set joint_model_inds
         in case take2 (arrays s ! model_corrmat_x) perm_inds of
              Inl e \<Rightarrow> (s, Inl e)
            | Inr q \<Rightarrow>
                (let (s1, x) = alloc s q;
                     loc_label = replicate (length self_locs - length bo_locs) ''reconstructed'' @
                                 replicate (length bo_locs) ''observed'';
                     perm_locs = iloc self_locs perm_inds
                 in (s1, Inr (x, loc_label, perm_locs, bo))))
      else
        (let bool_bo_mask = map (\<lambda>l. l \<in> set self_locs) bo_locs;
             disjoint_bo_inds = where_true (map Not bool_bo_mask);
             perm_inds = sorted_range_minus (length self_locs) joint_model_inds @
                         sorted_set joint_model_inds
         in case take2 (arrays s ! model_corrmat_x) perm_inds of
              Inl e \<Rightarrow> (s, Inl e)
            | Inr model_permuted \<Rightarrow>
                (let model_locs_permuted = iloc self_locs perm_inds;
                     bo_perm_inds = sorted_range_minus (length bo_locs) disjoint_bo_inds @
                                    sorted_set disjoint_bo_inds;
                     sub_bo = iloc bo_locs disjoint_bo_inds
                 in case select_columns (brain.data bo) bo_perm_inds of
                      Inl e \<Rightarrow> (s, Inl e)
                    | Inr bo_data \<Rightarrow>
                        (let bo' = bo\<lparr>brain.locs := iloc bo_locs bo_perm_inds, brain.data := bo_data\<rparr>;
                             perm_inds_unknown = sorted_range_minus (length self_locs) joint_model_inds;
                             model_rbf_weights = rbf H (model_locs_permuted @ sub_bo) model_locs_permuted;
                             (num_corrmat_x, denom_corrmat_x) =
                                expand_corrmat_predict H model_permuted model_rbf_weights
                         in case np_divide num_corrmat_x denom_corrmat_x of
                              Inl e \<Rightarrow> (s, Inl e)
                            | Inr q \<Rightarrow>
                                (let (s1, x) = alloc s q in
                                 case slice_assign (arrays s1 ! x) model_permuted of
                                   Inl e \<Rightarrow> (s1, Inl e)
                                 | Inr q' \<Rightarrow>
                                     (let s2 = store_array s1 x q';
                                          loc_label =
                                            replicate (length (iloc self_locs perm_inds_unknown))
                                              ''reconstructed'' @
                                            replicate (length (brain.locs bo')) ''observed'';
                                          perm_locs = iloc self_locs perm_inds_unknown @ brain.locs bo'
                                      in (s2, Inr (x, loc_label, perm_locs, bo'))))))))"

text \<open>Lines 225-231: the subject after the optional snapping and the kurtosis filter.\<close>

definition snap_and_filter :: "helpers \<Rightarrow> store \<Rightarrow> nat \<Rightarrow> brain \<Rightarrow> bool \<Rightarrow> match_threshold \<Rightarrow> real \<Rightarrow> brain" where
  "snap_and_filter H s self bo0 nearest_neighbor match_thresh kthreshold =
     (let bo1 = (if nearest_neighbor then near_neighbor H bo0 s self match_thresh else bo0)
      in filter_elecs H bo1 ''kurtosis'' kthreshold)"

text \<open>
  \<open>Model.predict\<close>. The subject is snapped and filtered, the estimate is computed, the
  assertion of line 266 rejects a subject that covers the model, the matrix is aligned,
  taken back to correlations with a zero diagonal, and the reconstruction is joined with
  the observed activity.
\<close>

definition predict :: "helpers \<Rightarrow> store \<Rightarrow> nat \<Rightarrow> brain \<Rightarrow> bool \<Rightarrow> match_threshold \<Rightarrow> bool \<Rightarrow> real \<Rightarrow>
    store \<times> (pyerror + labelled_brain)" where
  "predict H s self bo0 nearest_neighbor match_thresh force_update kthreshold =
     (let bo2 = snap_and_filter H s self bo0 nearest_neighbor match_thresh kthreshold
      in case predict_estimate H s self bo2 force_update of
           (s1, Inl e) \<Rightarrow> (s1, Inl e)
         | (s1, Inr model_corrmat_x) \<Rightarrow>
             (let bool_mask = count_overlapping (model.locs (models s1 ! self)) (brain.locs bo2) in
              if list_all id bool_mask
              then (s1, Inl (AssertionError ''model is a complete subset of patient locations''))
              else
                (case predict_align H s1 (model.locs (models s1 ! self)) model_corrmat_x bo2 bool_mask of
                   (s2, Inl e) \<Rightarrow> (s2, Inl e)
                 | (s2, Inr (x, loc_label, perm_locs, bo)) \<Rightarrow>
                     (let (s3, y) = alloc s2 (z2r H (arrays s2 ! x));
                          s4 = store_array s3 y (fill_diagonal (arrays s3 ! y) (Fin 0));
                          reconstructed = timeseries_recon H bo (arrays s4 ! y)
                      in case hstack reconstructed (zscore H (brain.data bo)) of
                           Inl e \<Rightarrow> (s4, Inl e)
                         | Inr activations \<Rightarrow>
                             (s4, Inr \<lparr>data = activations, locs = perm_locs,
                                       sessions = brain.sessions bo,
                                       sample_rate = brain.sample_rate bo,
                                       label = loc_label\<rparr>)))))"

section \<open>Example values\<close>

text \<open>Concrete inputs at which the theorems below are evaluated.\<close>

definition example_data :: ndarray where
  "example_data = \<lparr>shape0 = 1, shape1 = 2, item = (\<lambda>i j. Fin 0)\<rparr>"

definition example_locs :: "loc list" where
  "example_locs = [(0, 0, 0), (1, 0, 0), (2, 0, 0)]"

text \<open>
  Modelled from the spec: \<open>r2z\<close> and \<open>z2r\<close> of \<open>supereeg/helpers.py\<close>, which is not among the
  sources, are the Fisher transform \<open>atanh\<close> and its inverse \<open>tanh\<close>, cell by cell. They
  are used in the example helpers only; every theorem holds for any helpers.
\<close>

fun fl_tanh :: "fl \<Rightarrow> fl" where
  "fl_tanh NaN = NaN"
| "fl_tanh PInf = Fin 1"
| "fl_tanh NInf = Fin (- 1)"
| "fl_tanh (Fin x) = Fin (tanh x)"

fun fl_atanh :: "fl \<Rightarrow> fl" where
  "fl_atanh (Fin x) =
     (if x = 1 then PInf else if x = - 1 then NInf
      else if \<bar>x\<bar> < 1 then Fin (artanh x) else NaN)"
| "fl_atanh _ = NaN"

definition map_cells :: "(fl \<Rightarrow> fl) \<Rightarrow> ndarray \<Rightarrow> ndarray" where
  "map_cells f a = a\<lparr>item := (\<lambda>i j. f (item a i j))\<rparr>"

text \<open>
  Helpers for the examples: no snapping and no filtering, a zero correlation matrix, unit
  weights, zero contributions of the size of the target set, a zero reconstruction.
\<close>

definition example_helpers :: helpers where
  "example_helpers =
     \<lparr>near_neighbor = (\<lambda>bo s self t. bo),
      filter_elecs = (\<lambda>bo m k. bo),
      get_corrmat = (\<lambda>bo. np_zeros (length (brain.locs bo)) (length (brain.locs bo))),
      r2z = map_cells fl_atanh,
      z2r = map_cells fl_tanh,
      rbf = (\<lambda>target source. \<lparr>shape0 = length target, shape1 = length source,
                               item = (\<lambda>i j. Fin 1)\<rparr>),
      expand_corrmat_fit = (\<lambda>z w. (np_zeros (shape0 w) (shape0 w), np_zeros (shape0 w) (shape0 w))),
      expand_corrmat_predict =
        (\<lambda>z w. (np_zeros (shape0 w) (shape0 w), np_zeros (shape0 w) (shape0 w))),
      timeseries_recon =
        (\<lambda>bo k. np_zeros (shape0 (brain.data bo)) (shape0 k - shape1 (brain.data bo))),
      zscore = (\<lambda>a. a),
      load_nifti_locs = (\<lambda>t. []),
      strftime = ''now''\<rparr>"

text \<open>A store with one Model on the three example locations.\<close>

definition example_numerator :: ndarray where
  "example_numerator = \<lparr>shape0 = 3, shape1 = 3, item = (\<lambda>i j. if i = j then Fin 0 else Fin 1)\<rparr>"

definition example_denominator :: ndarray where
  "example_denominator = \<lparr>shape0 = 3, shape1 = 3, item = (\<lambda>i j. if i = j then Fin 0 else Fin 2)\<rparr>"

definition example_model :: model where
  "example_model =
     \<lparr>numerator = 0, denominator = 1, locs = example_locs, n_subs = 1, n_locs = 3,
      date_created = ''then'', meta = None\<rparr>"

definition example_store :: store where
  "example_store = \<lparr>arrays = [example_numerator, example_denominator], models = [example_model]\<rparr>"

text \<open>
  Subjects: one recorded at all three example locations, one at the third and the first
  (in that order), one at the second and at a location outside the model. Each has one
  sample; the value of a channel is ten times its position plus ten.
\<close>

definition example_subject :: "loc list \<Rightarrow> brain" where
  "example_subject ls =
     \<lparr>brain.data = \<lparr>shape0 = 1, shape1 = length ls, item = (\<lambda>i j. Fin (10 * real j + 10))\<rparr>,
      brain.locs = ls, brain.sessions = [SInt 1], brain.sample_rate = [Some 1000],
      brain.meta = None, n_elecs = length ls, n_secs = 1 / 1000, brain.date_created = ''then'',
      n_sessions = 1, kurtosis = replicate (length ls) (Fin 0)\<rparr>"

definition subject_all :: brain where
  "subject_all = example_subject [(0, 0, 0), (1, 0, 0), (2, 0, 0)]"

definition subject_two :: brain where
  "subject_two = example_subject [(2, 0, 0), (0, 0, 0)]"

definition subject_mixed :: brain where
  "subject_mixed = example_subject [(1, 0, 0), (5, 5, 5)]"

definition subject_apart :: brain where
  "subject_apart = example_subject [(5, 5, 5)]"

text \<open>
  Helpers whose expanded numerator has no information off the diagonal (NaN) while the
  weights are 1, and a store with one empty Model on the three example locations.
\<close>

definition nan_helpers :: helpers where
  "nan_helpers =
     example_helpers\<lparr>expand_corrmat_fit :=
       (\<lambda>z w. (\<lparr>shape0 = shape0 w, shape1 = shape0 w, item = (\<lambda>i j. if i = j then Fin 0 else NaN)\<rparr>,
               \<lparr>shape0 = shape0 w, shape1 = shape0 w, item = (\<lambda>i j. Fin 1)\<rparr>))\<rparr>"

definition empty_store :: store where
  "empty_store = \<lparr>arrays = [np_zeros 3 3, np_zeros 3 3], models = [example_model]\<rparr>"

text \<open>
  A subject with two electrodes on the first model location, as snapping leaves them
  when both are nearest to it.
\<close>

definition subject_twice :: brain where
  "subject_twice = example_subject [(0, 0, 0), (0, 0, 0)]"



section \<open>Predicates of the properties\<close>






section \<open>The command-line driver (code/recon_with_model.py)\<close>

text \<open>
  The file system as the driver sees it: the files with their contents, and the
  directories. What the driver prints is collected in \<open>printed\<close>.
\<close>

record 'c world =
  files :: "(string \<times> 'c) list"
  dirs :: "string list"
  printed :: "string list"

text \<open>
  What \<open>good_chans\<close> returns for the locations of the channels that pass: the Python list
  \<open>[]\<close>, or an array with so many rows.
\<close>

datatype kept = EmptyList | Rows nat

text \<open>
  The modules \<open>stats\<close> and \<open>bookkeeping\<close> are not among the sources: \<open>get_grand_parent_dir\<close>,
  \<open>get_parent_dir\<close> and \<open>good_chans\<close> are parameters, and so is the arithmetic of lines
  61-83 (\<open>reconstruct\<close>: from the data, the subject file, the locations and the average
  model to what \<open>savemat\<close> is given). \<open>getcwd\<close> is the working directory.
\<close>

record 'c driver_env =
  getcwd :: string
  get_grand_parent_dir :: "string \<Rightarrow> string"
  get_parent_dir :: "string \<Rightarrow> string"
  good_chans :: "'c \<Rightarrow> string \<Rightarrow> kept"
  reconstruct :: "'c \<Rightarrow> 'c \<Rightarrow> 'c \<Rightarrow> 'c \<Rightarrow> string \<Rightarrow> pyerror + 'c"

definition path_join :: "string \<Rightarrow> string \<Rightarrow> string" where
  \<comment> \<open>\<open>os.path.join(a, b)\<close>\<close>
  "path_join a b =
     (if b \<noteq> [] \<and> hd b = CHR ''/'' then b
      else if a = [] \<or> last a = CHR ''/'' then a @ b
      else a @ ''/'' @ b)"

definition basename :: "string \<Rightarrow> string" where
  "basename p = rev (takeWhile (\<lambda>c. c \<noteq> CHR ''/'') (rev p))"

definition dirname :: "string \<Rightarrow> string" where
  \<comment> \<open>\<open>os.path.dirname\<close>, for a path that is not directly under the root\<close>
  "dirname p = rev (drop 1 (dropWhile (\<lambda>c. c \<noteq> CHR ''/'') (rev p)))"

definition splitext_root :: "string \<Rightarrow> string" where
  \<comment> \<open>\<open>os.path.splitext(p)[0]\<close> for a name without \<open>/\<close>: leading dots start no extension\<close>
  "splitext_root p =
     (let rest = dropWhile (\<lambda>c. c \<noteq> CHR ''.'') (rev p) in
      if rest = [] then p
      else (let root = rev (tl rest) in
            if list_all (\<lambda>c. c = CHR ''.'') root then p else root))"

definition isfile :: "'c world \<Rightarrow> string \<Rightarrow> bool" where
  "isfile w p = (map_of (files w) p \<noteq> None)"

definition isdir :: "'c world \<Rightarrow> string \<Rightarrow> bool" where
  "isdir w p = (p \<in> set (dirs w))"

definition np_load :: "'c world \<Rightarrow> string \<Rightarrow> pyerror + 'c" where
  "np_load w p = (case map_of (files w) p of None \<Rightarrow> Inl IOError | Some c \<Rightarrow> Inr c)"

definition mkdir :: "'c world \<Rightarrow> string \<Rightarrow> pyerror + 'c world" where
  \<comment> \<open>\<open>os.mkdir\<close>: the path must be new and its parent a directory\<close>
  "mkdir w p =
     (if isfile w p \<or> isdir w p \<or> \<not> isdir w (dirname p) then Inl OSError
      else Inr (w\<lparr>dirs := p # dirs w\<rparr>))"

definition savemat :: "'c world \<Rightarrow> string \<Rightarrow> 'c \<Rightarrow> pyerror + 'c world" where
  \<comment> \<open>\<open>scipy.io.savemat\<close>: the file is created or replaced\<close>
  "savemat w p c =
     (if isdir w p \<or> \<not> isdir w (dirname p) then Inl IOError
      else Inr (w\<lparr>files := (p, c) # files w\<rparr>))"

definition print :: "'c world \<Rightarrow> string \<Rightarrow> 'c world" where
  "print w line = w\<lparr>printed := printed w @ [line]\<rparr>"

text \<open>
  \<open>main(fname, r, k_thresh)\<close>; the arguments are the strings of the command line. The
  result is the world afterwards, with the exception raised, if any.
\<close>

definition main :: "'c driver_env \<Rightarrow> 'c world \<Rightarrow> string \<Rightarrow> string \<Rightarrow> string \<Rightarrow>
    'c world \<times> (pyerror + unit)" where
  "main E w fname r k_thresh =
     (let lower_time_gif = ''0'';
          upper_time_gif = ''10'';
          loc_name = ''R_small_MNI.npy'';
          average_dir = path_join (get_grand_parent_dir E (getcwd E)) ''ave_model'';
          file_name = splitext_root (basename fname)
      in case np_load w fname of
           Inl e \<Rightarrow> (w, Inl e)
         | Inr npz_data \<Rightarrow>
             (let corr_dir = path_join (get_grand_parent_dir E (getcwd E)) ''corr_matrices'';
                  gif_dir = path_join (get_grand_parent_dir E (getcwd E))
                     (''gif_'' @ file_name @ ''_'' @ lower_time_gif @ ''_'' @ upper_time_gif)
              in case (if \<not> isdir w gif_dir then mkdir w gif_dir else Inr w) of
                   Inl e \<Rightarrow> (w, Inl e)
                 | Inr w1 \<Rightarrow>
                     (if \<not> isfile w1 (path_join gif_dir
                            (''gif'' @ file_name @ ''_'' @ lower_time_gif @ ''_'' @ upper_time_gif @ ''.mat''))
                      then
                        (case np_load w1 (path_join corr_dir (''sub_corr_'' @ file_name @ ''.npz'')) of
                           Inl e \<Rightarrow> (w1, Inl e)
                         | Inr sub_data \<Rightarrow>
                             (case good_chans E sub_data k_thresh of
                                EmptyList \<Rightarrow> (w1, Inr ())
                              | Rows n \<Rightarrow>
                                  (if 1 < n then
                                     (case np_load w1 (path_join (get_parent_dir E (getcwd E)) loc_name) of
                                        Inl e \<Rightarrow> (w1, Inl e)
                                      | Inr R_full \<Rightarrow>
                                          (case np_load w1 (path_join average_dir
                                                  (''average_model'' @ ''_k_'' @ k_thresh @ ''_r_'' @ r @ ''.npz'')) of
                                             Inl e \<Rightarrow> (w1, Inl e)
                                           | Inr Ave_data \<Rightarrow>
                                               (case reconstruct E npz_data sub_data R_full Ave_data k_thresh of
                                                  Inl e \<Rightarrow> (w1, Inl e)
                                                | Inr recon \<Rightarrow>
                                                    (let outfile = path_join gif_dir ''gif_df.mat'' in
                                                     case savemat w1 outfile recon of
                                                       Inl e \<Rightarrow> (w1, Inl e)
                                                     | Inr w2 \<Rightarrow> (w2, Inr ())))))
                                   else
                                     (print w1 (''not enough electrodes pass k = '' @ k_thresh), Inr ()))))
                      else (print w1 ''gif exists'', Inr ()))))"

text \<open>
  A world for the driver: the subject file \<open>/d/sub/s1.npz\<close>, its correlation file, the
  locations, the average model, and an output \<open>gif_df.mat\<close> of an earlier run.
\<close>

definition example_env :: "string driver_env" where
  "example_env =
     \<lparr>getcwd = ''/d/x/code'',
      get_grand_parent_dir = (\<lambda>p. ''/d''),
      get_parent_dir = (\<lambda>p. ''/d/x''),
      good_chans = (\<lambda>c k. if c = ''two passing'' then Rows 2 else if c = ''one passing'' then Rows 1
                            else EmptyList),
      reconstruct = (\<lambda>y c l a k. Inr ''new reconstruction'')\<rparr>"

definition example_world :: "string \<Rightarrow> string world" where
  "example_world sub_corr =
     \<lparr>files = [(''/d/sub/s1.npz'', ''data''),
               (''/d/corr_matrices/sub_corr_s1.npz'', sub_corr),
               (''/d/x/R_small_MNI.npy'', ''locations''),
               (''/d/ave_model/average_model_k_10_r_20.npz'', ''average''),
               (''/d/gif_s1_0_10/gif_df.mat'', ''old reconstruction'')],
      dirs = [''/d'', ''/d/sub'', ''/d/x'', ''/d/corr_matrices'', ''/d/ave_model'', ''/d/gif_s1_0_10''],
      printed = []\<rparr>"

section \<open>Properties\<close>

subsection \<open>Brain construction\<close>

lemma Brain_init_no_rate_nonempty:
  assumes "0 < shape0 (DataFrame d)" and "s = SessNone \<or> s = SessScalar v"
  shows "\<exists>b. Brain_init kv now d l s (RateScalar None) m =
           ([''No sample rate given.  Setting sample rate to 1000''], Inr b) \<and>
           brain.sample_rate b = replicate (shape0 (DataFrame d)) (Some 1000) \<and>
           n_secs b = real (shape0 (DataFrame d)) / 1000"
  using assms
  by (cases "shape0 (DataFrame d)")
     (auto simp: Brain_init_def Let_def brain_sessions_def brain_sample_rate_def brain_n_secs_def
        is_sessions_list_def)

text \<open>
  C5, as the code has it. \<open>Brain.__init__\<close> never compares the number of data columns
  with the number of locations: whether construction succeeds does not depend on the
  locations, and a constructed Brain has \<open>n_elecs\<close> equal to the number of data columns and
  keeps the data and the locations as they were passed.
\<close>

theorem Brain_init_no_shape_check:
  "isl (snd (Brain_init kv now d l s r m)) = isl (snd (Brain_init kv now d l' s r m)) \<and>
   (snd (Brain_init kv now d l s r m) = Inr b \<longrightarrow>
      n_elecs b = shape1 (DataFrame d) \<and> brain.data b = DataFrame d \<and>
      brain.locs b = DataFrame_xyz l)"
  by (auto simp: Brain_init_def Let_def split: sum.splits prod.splits)

theorem Brain_init_no_shape_check_witness:
  "snd (Brain_init (\<lambda>b. []) [] (Some example_data) (Some example_locs) SessNone
          (RateScalar (Some 1000)) None) =
     Inr (projr (snd (Brain_init (\<lambda>b. []) [] (Some example_data) (Some example_locs) SessNone
          (RateScalar (Some 1000)) None))) \<and>
   n_elecs (projr (snd (Brain_init (\<lambda>b. []) [] (Some example_data) (Some example_locs) SessNone
          (RateScalar (Some 1000)) None))) = shape1 (DataFrame (Some example_data)) \<and>
   brain.locs (projr (snd (Brain_init (\<lambda>b. []) [] (Some example_data) (Some example_locs) SessNone
          (RateScalar (Some 1000)) None))) = DataFrame_xyz (Some example_locs)"
proof -
  let ?r = "snd (Brain_init (\<lambda>b. []) [] (Some example_data) (Some example_locs) SessNone
          (RateScalar (Some 1000)) None)"
  have ok: "?r = Inr (projr ?r)"
    by (simp add: Brain_init_def Let_def brain_sessions_def brain_sample_rate_def
        brain_n_secs_def is_sessions_list_def DataFrame_def example_data_def)
  from Brain_init_no_shape_check [of "\<lambda>b. []" "[]" "Some example_data" "Some example_locs"
      SessNone "RateScalar (Some 1000)" None "Some example_locs" "projr ?r"] ok
  show ?thesis by blast
qed

text \<open>
  C5, as the spec has it, fails: a Brain with two data columns and three locations is
  constructed.
\<close>

theorem Brain_init_mismatch_counterexample:
  "\<not> isl (snd (Brain_init (\<lambda>b. []) [] (Some example_data) (Some example_locs) SessNone
       (RateScalar (Some 1000)) None)) \<and>
   shape1 (brain.data (projr (snd (Brain_init (\<lambda>b. []) [] (Some example_data) (Some example_locs)
       SessNone (RateScalar (Some 1000)) None)))) = 2 \<and>
   length (brain.locs (projr (snd (Brain_init (\<lambda>b. []) [] (Some example_data) (Some example_locs)
       SessNone (RateScalar (Some 1000)) None)))) = 3"
  by (simp add: Brain_init_def Let_def brain_sessions_def brain_sample_rate_def brain_n_secs_def
      is_sessions_list_def DataFrame_def DataFrame_xyz_def example_data_def example_locs_def)

text \<open>
  C10. Without a sample rate the list of rates has one 1000 for every sample; with no
  sample it is empty, and \<open>self.sample_rate[0]\<close> raises IndexError after the warning:
  \<open>Brain()\<close> and every Brain without data, sessions and sample rate fails to construct.
\<close>

theorem Brain_init_no_rate_no_samples:
  "Brain_init kv now None l SessNone (RateScalar None) m =
     ([''No sample rate given.  Setting sample rate to 1000''], Inl IndexError)"
  by (simp add: Brain_init_def Let_def brain_sessions_def brain_sample_rate_def brain_n_secs_def
      is_sessions_list_def DataFrame_def)

subsection \<open>Model.plot\<close>

lemma alloc_eq:
  "alloc s a = (s', p) \<Longrightarrow> p = length (arrays s) \<and> arrays s' = arrays s @ [a] \<and> models s' = models s"
  by (auto simp: alloc_def)

text \<open>
  C8, as the code has it. The matrix that \<open>plot\<close> hands to \<open>sns.heatmap\<close> is
  \<open>z2r(numerator / denominator)\<close> with every diagonal cell set to 1; off the
  diagonal it is the estimate.
\<close>

theorem plot_unit_diagonal:
  assumes "snd (plot H s self) = Inr c"
  shows "\<exists>q. np_divide (arrays s ! numerator (models s ! self)) (arrays s ! denominator (models s ! self)) = Inr q
      \<and> shape0 c = shape0 (z2r H q) \<and> shape1 c = shape1 (z2r H q)
      \<and> (\<forall>i j. i < shape0 c \<and> j < shape1 c \<longrightarrow>
            item c i j = (if i = j then Fin 1 else item (z2r H q) i j))"
  using assms
  by (auto simp: plot_def Let_def alloc_def store_array_def fill_diagonal_def split: sum.splits)

lemma example_plot:
  "snd (plot example_helpers example_store 0) =
     Inr (fill_diagonal (map_cells fl_tanh \<lparr>shape0 = 3, shape1 = 3,
        item = (\<lambda>i j. fl_div (item example_numerator i j) (item example_denominator i j))\<rparr>) (Fin 1))"
  by (simp add: plot_def Let_def alloc_def store_array_def example_store_def example_model_def
      np_divide_def broadcast2_def bdim_def example_numerator_def example_denominator_def
      example_helpers_def)

text \<open>
  C8, as the spec has it, fails: the diagonal of the plotted matrix is 1, not 0.
\<close>

theorem plot_zero_diagonal_counterexample:
  "\<not> isl (snd (plot example_helpers example_store 0)) \<and>
   item (projr (snd (plot example_helpers example_store 0))) 0 0 = Fin 1 \<and>
   item (projr (snd (plot example_helpers example_store 0))) 0 0 \<noteq> Fin 0"
  by (simp add: example_plot fill_diagonal_def map_cells_def)

theorem plot_unit_diagonal_witness:
  "snd (plot example_helpers example_store 0) = Inr (projr (snd (plot example_helpers example_store 0))) \<and>
   (\<exists>q. np_divide (arrays example_store ! numerator (models example_store ! 0))
            (arrays example_store ! denominator (models example_store ! 0)) = Inr q
      \<and> shape0 (projr (snd (plot example_helpers example_store 0))) = shape0 (z2r example_helpers q)
      \<and> item (projr (snd (plot example_helpers example_store 0))) 1 1 = Fin 1
      \<and> item (projr (snd (plot example_helpers example_store 0))) 0 1 = item (z2r example_helpers q) 0 1)"
proof -
  let ?c = "projr (snd (plot example_helpers example_store 0))"
  have ok: "snd (plot example_helpers example_store 0) = Inr ?c"
    by (simp add: example_plot)
  have sh: "shape0 ?c = 3" "shape1 ?c = 3"
    by (simp_all add: example_plot fill_diagonal_def map_cells_def)
  from plot_unit_diagonal [OF ok] obtain q where
    q: "np_divide (arrays example_store ! numerator (models example_store ! 0))
            (arrays example_store ! denominator (models example_store ! 0)) = Inr q"
    and s0: "shape0 ?c = shape0 (z2r example_helpers q)"
    and cells: "\<forall>i j. i < shape0 ?c \<and> j < shape1 ?c \<longrightarrow>
            item ?c i j = (if i = j then Fin 1 else item (z2r example_helpers q) i j)"
    by blast
  from cells sh have "item ?c 1 1 = Fin 1"
    by simp
  moreover from cells sh have "item ?c 0 1 = item (z2r example_helpers q) 0 1"
    by simp
  ultimately show ?thesis
    using ok q s0 by blast
qed

subsection \<open>Model.predict: the rejected subject\<close>

lemma predict_estimate_models:
  "predict_estimate H s self bo fu = (s1, r) \<Longrightarrow> models s1 = models s"
  by (auto simp: predict_estimate_def Let_def alloc_def split: sum.splits if_splits prod.splits)

lemma list_all_count_overlapping:
  "list_all id (count_overlapping ms bs) = (set ms \<subseteq> set bs)"
  by (auto simp: count_overlapping_def list_all_iff)

text \<open>
  C1. When the locations of the subject, after snapping and filtering, cover every
  reference location of the model, \<open>predict\<close> fails and leaves the store as the
  estimate left it: nothing is aligned or reconstructed. Whenever the estimate itself was
  computed, the failure is the assertion of line 266.
\<close>

theorem predict_rejects_cover:
  assumes cover: "set (model.locs (models s ! self)) \<subseteq>
      set (brain.locs (snap_and_filter H s self bo nn mt k))"
  shows "isl (snd (predict H s self bo nn mt fu k)) \<and>
     fst (predict H s self bo nn mt fu k) =
       fst (predict_estimate H s self (snap_and_filter H s self bo nn mt k) fu) \<and>
     (\<not> isl (snd (predict_estimate H s self (snap_and_filter H s self bo nn mt k) fu)) \<longrightarrow>
        snd (predict H s self bo nn mt fu k) =
          Inl (AssertionError ''model is a complete subset of patient locations''))"
proof -
  let ?bo = "snap_and_filter H s self bo nn mt k"
  obtain s1 r where e: "predict_estimate H s self ?bo fu = (s1, r)"
    by (cases "predict_estimate H s self ?bo fu")
  have m: "models s1 = models s"
    using e by (rule predict_estimate_models)
  show ?thesis
  proof (cases r)
    case (Inl err)
    with e show ?thesis by (simp add: predict_def Let_def)
  next
    case (Inr x)
    with e m cover show ?thesis
      by (simp add: predict_def Let_def list_all_count_overlapping)
  qed
qed

lemma example_estimate:
  "predict_estimate example_helpers example_store 0 b False =
     (example_store\<lparr>arrays := arrays example_store @
        [\<lparr>shape0 = 3, shape1 = 3,
          item = (\<lambda>i j. fl_div (item example_numerator i j) (item example_denominator i j))\<rparr>]\<rparr>, Inr 2)"
  by (simp add: predict_estimate_def Let_def alloc_def example_store_def example_model_def
      np_divide_def broadcast2_def bdim_def example_numerator_def example_denominator_def)

theorem predict_rejects_cover_witness:
  "set (model.locs (models example_store ! 0)) \<subseteq>
      set (brain.locs (snap_and_filter example_helpers example_store 0 subject_all True Auto 10)) \<and>
   \<not> isl (snd (predict_estimate example_helpers example_store 0
      (snap_and_filter example_helpers example_store 0 subject_all True Auto 10) False)) \<and>
   snd (predict example_helpers example_store 0 subject_all True Auto False 10) =
      Inl (AssertionError ''model is a complete subset of patient locations'')"
proof -
  have c: "set (model.locs (models example_store ! 0)) \<subseteq>
      set (brain.locs (snap_and_filter example_helpers example_store 0 subject_all True Auto 10))"
    by (simp add: snap_and_filter_def example_helpers_def example_store_def example_model_def
        example_locs_def subject_all_def example_subject_def)
  have e: "\<not> isl (snd (predict_estimate example_helpers example_store 0
      (snap_and_filter example_helpers example_store 0 subject_all True Auto 10) False))"
    by (simp add: example_estimate)
  from predict_rejects_cover [OF c, of False] c e show ?thesis
    by blast
qed

subsection \<open>Model.predict: the alignment\<close>

lemma where_true_map:
  "where_true (map f xs) = [i \<leftarrow> [0..<length xs]. f (xs ! i)]"
  by (auto simp: where_true_def intro: filter_cong)

lemma sorted_set_filter_upt:
  "sorted_set [i \<leftarrow> [0..<n]. P i] = [i \<leftarrow> [0..<n]. P i]"
  by (simp add: sorted_set_def sort_key_id_if_sorted sorted_wrt_filter)

lemma sorted_range_minus_filter_upt:
  "sorted_range_minus n [i \<leftarrow> [0..<n]. P i] = [i \<leftarrow> [0..<n]. \<not> P i]"
proof -
  have "[i \<leftarrow> [0..<n]. i \<notin> set [i \<leftarrow> [0..<n]. P i]] = [i \<leftarrow> [0..<n]. \<not> P i]"
    by (auto intro: filter_cong)
  then show ?thesis
    by (simp add: sorted_range_minus_def sort_key_id_if_sorted sorted_wrt_filter)
qed

lemma iloc_filter_upt:
  "iloc xs [i \<leftarrow> [0..<length xs]. Q (xs ! i)] = filter Q xs"
proof -
  have "map (\<lambda>i. xs ! i) (filter (Q \<circ> (\<lambda>i. xs ! i)) [0..<length xs]) =
        filter Q (map (\<lambda>i. xs ! i) [0..<length xs])"
    by (simp only: filter_map)
  then show ?thesis
    by (simp add: iloc_def map_nth o_def)
qed

lemma iloc_append: "iloc xs (p @ q) = iloc xs p @ iloc xs q"
  by (simp add: iloc_def)


lemma where_true_count_overlapping:
  "where_true (count_overlapping ml bl) = [i \<leftarrow> [0..<length ml]. ml ! i \<in> set bl]"
  by (simp add: count_overlapping_def where_true_map)

lemma list_ex_count_overlapping:
  "list_ex id (count_overlapping ml bl) = (set ml \<inter> set bl \<noteq> {})"
  by (auto simp: count_overlapping_def list_ex_iff)

lemma sum_count_overlapping:
  "length (filter id (count_overlapping ml bl)) = length (filter (\<lambda>l. l \<in> set bl) ml)"
  by (simp add: count_overlapping_def filter_map o_def)

lemma perm_inds_locs:
  "iloc ml (sorted_range_minus (length ml) [i \<leftarrow> [0..<length ml]. ml ! i \<in> S] @
            sorted_set [i \<leftarrow> [0..<length ml]. ml ! i \<in> S]) =
   filter (\<lambda>l. l \<notin> S) ml @ filter (\<lambda>l. l \<in> S) ml"
  by (simp add: sorted_range_minus_filter_upt sorted_set_filter_upt iloc_append
      iloc_filter_upt [where Q = "\<lambda>l. l \<in> S"] iloc_filter_upt [where Q = "\<lambda>l. l \<notin> S"])

lemma perm_inds_unknown_locs:
  "iloc ml (sorted_range_minus (length ml) [i \<leftarrow> [0..<length ml]. ml ! i \<in> S]) =
   filter (\<lambda>l. l \<notin> S) ml"
  by (simp add: sorted_range_minus_filter_upt iloc_filter_upt [where Q = "\<lambda>l. l \<notin> S"])

lemma bo_perm_inds_locs:
  "iloc bl (sorted_range_minus (length bl) [i \<leftarrow> [0..<length bl]. bl ! i \<notin> S] @
            sorted_set [i \<leftarrow> [0..<length bl]. bl ! i \<notin> S]) =
   filter (\<lambda>l. l \<in> S) bl @ filter (\<lambda>l. l \<notin> S) bl"
  by (simp add: sorted_range_minus_filter_upt sorted_set_filter_upt iloc_append
      iloc_filter_upt [where Q = "\<lambda>l. l \<in> S"] iloc_filter_upt [where Q = "\<lambda>l. l \<notin> S"])

lemma disjoint_bo_inds:
  "where_true (map Not (map (\<lambda>l. l \<in> S) bl)) = [i \<leftarrow> [0..<length bl]. bl ! i \<notin> S]"
  using where_true_map [of "\<lambda>l. l \<notin> S" bl] by (simp add: o_def)

lemma disjoint_bo_inds_comp:
  "where_true (map (Not \<circ> (\<lambda>l. l \<in> S)) bl) = [i \<leftarrow> [0..<length bl]. bl ! i \<notin> S]"
  using disjoint_bo_inds [of S bl] by simp

lemma sub_bo_locs:
  "iloc bl [i \<leftarrow> [0..<length bl]. bl ! i \<notin> S] = filter (\<lambda>l. l \<notin> S) bl"
  by (rule iloc_filter_upt [where Q = "\<lambda>l. l \<notin> S"])

lemma predict_align_result:
  assumes "predict_align H s ml x bo (count_overlapping ml (brain.locs bo)) = (s', Inr (x', lab, pl, bo'))"
  shows "(set ml \<inter> set (brain.locs bo) = {} \<and> bo' = bo \<and>
          pl = ml @ brain.locs bo \<and>
          lab = replicate (length ml) ''reconstructed'' @
                replicate (length (brain.locs bo)) ''observed'') \<or>
         (set ml \<inter> set (brain.locs bo) \<noteq> {} \<and> bo' = bo \<and>
          length (filter (\<lambda>l. l \<in> set (brain.locs bo)) ml) = length (brain.locs bo) \<and>
          pl = filter (\<lambda>l. l \<notin> set (brain.locs bo)) ml @ filter (\<lambda>l. l \<in> set (brain.locs bo)) ml \<and>
          lab = replicate (length ml - length (brain.locs bo)) ''reconstructed'' @
                replicate (length (brain.locs bo)) ''observed'') \<or>
         (set ml \<inter> set (brain.locs bo) \<noteq> {} \<and>
          length (filter (\<lambda>l. l \<in> set (brain.locs bo)) ml) \<noteq> length (brain.locs bo) \<and>
          brain.locs bo' = filter (\<lambda>l. l \<in> set ml) (brain.locs bo) @
                           filter (\<lambda>l. l \<notin> set ml) (brain.locs bo) \<and>
          pl = filter (\<lambda>l. l \<notin> set (brain.locs bo)) ml @ brain.locs bo' \<and>
          lab = replicate (length (filter (\<lambda>l. l \<notin> set (brain.locs bo)) ml)) ''reconstructed'' @
                replicate (length (brain.locs bo)) ''observed'')"
proof (cases "set ml \<inter> set (brain.locs bo) = {}")
  case True
  with assms show ?thesis
    by (auto simp: predict_align_def Let_def list_ex_count_overlapping alloc_def
        split: sum.splits prod.splits)
next
  case ne: False
  show ?thesis
  proof (cases "length (filter (\<lambda>l. l \<in> set (brain.locs bo)) ml) = length (brain.locs bo)")
    case True
    with ne assms show ?thesis
      by (auto simp: predict_align_def Let_def list_ex_count_overlapping alloc_def
          sum_count_overlapping where_true_count_overlapping perm_inds_locs
          split: sum.splits prod.splits)
  next
    case False
    with ne assms show ?thesis
      by (auto simp: predict_align_def Let_def list_ex_count_overlapping alloc_def
          sum_count_overlapping where_true_count_overlapping perm_inds_locs
          perm_inds_unknown_locs disjoint_bo_inds_comp bo_perm_inds_locs sub_bo_locs
          sum_length_filter_compl
          split: sum.splits prod.splits)
  qed
qed


lemma predict_Inr:
  assumes "snd (predict H s self bo nn mt fu k) = Inr r"
  shows "\<exists>s1 x s2 x' bo'.
           predict_estimate H s self (snap_and_filter H s self bo nn mt k) fu = (s1, Inr x) \<and>
           predict_align H s1 (model.locs (models s ! self)) x (snap_and_filter H s self bo nn mt k)
             (count_overlapping (model.locs (models s ! self))
                (brain.locs (snap_and_filter H s self bo nn mt k))) =
             (s2, Inr (x', label r, labelled_brain.locs r, bo')) \<and>
           hstack (timeseries_recon H bo'
                     (fill_diagonal (z2r H (arrays s2 ! x')) (Fin 0)))
                  (zscore H (brain.data bo')) = Inr (labelled_brain.data r)"
proof -
  let ?bo = "snap_and_filter H s self bo nn mt k"
  obtain s1 e where e: "predict_estimate H s self ?bo fu = (s1, e)"
    by (cases "predict_estimate H s self ?bo fu")
  have m: "models s1 = models s"
    using e by (rule predict_estimate_models)
  from assms e obtain x where x: "e = Inr x"
    by (cases e) (simp_all add: predict_def Let_def)
  let ?ml = "model.locs (models s ! self)"
  let ?bm = "count_overlapping ?ml (brain.locs ?bo)"
  obtain s2 a where a: "predict_align H s1 ?ml x ?bo ?bm = (s2, a)"
    by (cases "predict_align H s1 ?ml x ?bo ?bm")
  from assms e x m a obtain x' lab pl bo' where r: "a = Inr (x', lab, pl, bo')"
    by (cases a) (auto simp: predict_def Let_def split: if_splits)
  from assms e x m a r have "label r = lab \<and> labelled_brain.locs r = pl \<and>
      hstack (timeseries_recon H bo' (fill_diagonal (z2r H (arrays s2 ! x')) (Fin 0)))
             (zscore H (brain.data bo')) = Inr (labelled_brain.data r)"
    by (auto simp: predict_def Let_def alloc_def store_array_def split: if_splits sum.splits)
  with e x a r show ?thesis
    by auto
qed


lemma map_tag_filter_in:
  "map (\<lambda>l. if l \<in> S then a else b) (filter (\<lambda>l. l \<in> S) xs) =
   replicate (length (filter (\<lambda>l. l \<in> S) xs)) a"
  by (induction xs) auto

lemma map_tag_filter_out:
  "map (\<lambda>l. if l \<in> S then a else b) (filter (\<lambda>l. l \<notin> S) xs) =
   replicate (length (filter (\<lambda>l. l \<notin> S) xs)) b"
  by (induction xs) auto

lemma map_tag_all_in:
  "set xs \<subseteq> S \<Longrightarrow> map (\<lambda>l. if l \<in> S then a else b) xs = replicate (length xs) a"
  by (induction xs) auto

lemma map_tag_all_out:
  "set xs \<inter> S = {} \<Longrightarrow> map (\<lambda>l. if l \<in> S then a else b) xs = replicate (length xs) b"
  by (induction xs) auto

lemma subset_of_overlap_count:
  assumes "distinct ml" and "distinct bl"
    and "length (filter (\<lambda>l. l \<in> set bl) ml) = length bl"
  shows "set bl \<subseteq> set ml"
proof -
  have "card (set (filter (\<lambda>l. l \<in> set bl) ml)) = length (filter (\<lambda>l. l \<in> set bl) ml)"
    by (rule distinct_card) (simp add: assms(1))
  also have "\<dots> = card (set bl)"
    using assms(2,3) by (simp add: distinct_card)
  finally have "card (set (filter (\<lambda>l. l \<in> set bl) ml)) = card (set bl)" .
  moreover have "set (filter (\<lambda>l. l \<in> set bl) ml) \<subseteq> set bl"
    by auto
  ultimately have "set (filter (\<lambda>l. l \<in> set bl) ml) = set bl"
    by (simp add: card_subset_eq)
  then show ?thesis by auto
qed

lemma length_filter_out:
  "length (filter (\<lambda>l. l \<notin> S) xs) = length xs - length (filter (\<lambda>l. l \<in> S) xs)"
  using sum_length_filter_compl [of "\<lambda>l. l \<in> S" xs] by simp

lemma align_complete:
  assumes al: "predict_align H s ml x bo (count_overlapping ml (brain.locs bo)) = (s', Inr (x', lab, pl, bo'))"
    and dm: "distinct ml" and db: "distinct (brain.locs bo)"
  shows "distinct pl \<and> set pl = set ml \<union> set (brain.locs bo) \<and> length lab = length pl \<and>
         lab = map (\<lambda>l. if l \<in> set (brain.locs bo) then ''observed'' else ''reconstructed'') pl"
proof -
  let ?bl = "brain.locs bo"
  let ?tag = "\<lambda>l. if l \<in> set ?bl then ''observed'' else ''reconstructed''"
  from predict_align_result [OF al] consider
    (none) "set ml \<inter> set ?bl = {}" "pl = ml @ ?bl"
        "lab = replicate (length ml) ''reconstructed'' @ replicate (length ?bl) ''observed''"
  | (subset) "length (filter (\<lambda>l. l \<in> set ?bl) ml) = length ?bl"
        "pl = filter (\<lambda>l. l \<notin> set ?bl) ml @ filter (\<lambda>l. l \<in> set ?bl) ml"
        "lab = replicate (length ml - length ?bl) ''reconstructed'' @ replicate (length ?bl) ''observed''"
  | (partial) "brain.locs bo' = filter (\<lambda>l. l \<in> set ml) ?bl @ filter (\<lambda>l. l \<notin> set ml) ?bl"
        "pl = filter (\<lambda>l. l \<notin> set ?bl) ml @ brain.locs bo'"
        "lab = replicate (length (filter (\<lambda>l. l \<notin> set ?bl) ml)) ''reconstructed'' @
               replicate (length ?bl) ''observed''"
    by blast
  then show ?thesis
  proof cases
    case none
    have "map ?tag ml = replicate (length ml) ''reconstructed''"
      using none(1) by (rule map_tag_all_out)
    moreover have "map ?tag ?bl = replicate (length ?bl) ''observed''"
      by (rule map_tag_all_in) simp
    ultimately show ?thesis
      using none dm db by auto
  next
    case subset
    have sub: "set ?bl \<subseteq> set ml"
      using dm db subset(1) by (rule subset_of_overlap_count)
    have l: "length (filter (\<lambda>l. l \<notin> set ?bl) ml) = length ml - length ?bl"
      using subset(1) by (simp add: length_filter_out)
    have "map ?tag pl = lab"
      unfolding subset(2,3) map_append map_tag_filter_in map_tag_filter_out l subset(1) ..
    moreover have "distinct pl" "set pl = set ml \<union> set ?bl"
      using dm sub unfolding subset(2) by auto
    moreover have "length lab = length pl"
      using l subset by simp
    ultimately show ?thesis by simp
  next
    case partial
    have l: "length (brain.locs bo') = length ?bl"
      unfolding partial(1) by (simp add: sum_length_filter_compl)
    have t1: "map ?tag (brain.locs bo') = replicate (length ?bl) ''observed''"
      using map_tag_all_in [of "brain.locs bo'" "set ?bl" "''observed''" "''reconstructed''"] l
      unfolding partial(1) by auto
    have "map ?tag pl = lab"
      unfolding partial(2,3) map_append map_tag_filter_out t1 ..
    moreover have "distinct pl" "set pl = set ml \<union> set ?bl"
      using dm db unfolding partial(1,2) by auto
    moreover have "length lab = length pl"
      using l partial by simp
    ultimately show ?thesis by simp
  qed
qed

text \<open>
  C3, as the code has it. Whenever \<open>predict\<close> returns (through any of the three cases of
  the alignment), for a model and a snapped, filtered subject whose location lists have
  no duplicates, the returned locations hold every reference location and every subject
  location exactly once, there is one label for each returned location, and the label is
  \<open>observed\<close> at the locations of the subject and \<open>reconstructed\<close> at the others.
\<close>

theorem predict_locations_complete:
  assumes ok: "snd (predict H s self bo nn mt fu k) = Inr r"
    and dm: "distinct (model.locs (models s ! self))"
    and db: "distinct (brain.locs (snap_and_filter H s self bo nn mt k))"
  shows "distinct (labelled_brain.locs r) \<and>
         set (labelled_brain.locs r) =
           set (model.locs (models s ! self)) \<union> set (brain.locs (snap_and_filter H s self bo nn mt k)) \<and>
         length (label r) = length (labelled_brain.locs r) \<and>
         label r = map (\<lambda>l. if l \<in> set (brain.locs (snap_and_filter H s self bo nn mt k))
                            then ''observed'' else ''reconstructed'') (labelled_brain.locs r)"
proof -
  from predict_Inr [OF ok] obtain s1 x s2 x' bo' where
    "predict_align H s1 (model.locs (models s ! self)) x (snap_and_filter H s self bo nn mt k)
       (count_overlapping (model.locs (models s ! self))
          (brain.locs (snap_and_filter H s self bo nn mt k))) =
       (s2, Inr (x', label r, labelled_brain.locs r, bo'))"
    by blast
  from align_complete [OF this dm db] show ?thesis .
qed

text \<open>The three cases of the alignment at the example subjects.\<close>

lemmas example_defs = example_helpers_def example_store_def example_model_def example_locs_def
  example_numerator_def example_denominator_def example_subject_def
  subject_all_def subject_two_def subject_mixed_def subject_apart_def

lemmas np_defs = np_divide_def np_add_def broadcast2_def bdim_def np_zeros_def take2_def
  select_columns_def hstack_def slice_assign_def alloc_def store_array_def
  where_true_def sorted_set_def sorted_range_minus_def iloc_def count_overlapping_def

lemma example_predict_apart:
  "\<exists>s d. predict example_helpers example_store 0 subject_apart True Auto False 10 =
     (s, Inr \<lparr>data = d,
        locs = [(0, 0, 0), (1, 0, 0), (2, 0, 0), (5, 5, 5)],
        sessions = [SInt 1], sample_rate = [Some 1000],
        label = [''reconstructed'', ''reconstructed'', ''reconstructed'', ''observed'']\<rparr>)"
  by (simp add: predict_def predict_estimate_def predict_align_def snap_and_filter_def Let_def
      example_defs np_defs)

lemma example_predict_two:
  "\<exists>s d. predict example_helpers example_store 0 subject_two True Auto False 10 =
     (s, Inr \<lparr>data = d,
        locs = [(1, 0, 0), (0, 0, 0), (2, 0, 0)],
        sessions = [SInt 1], sample_rate = [Some 1000],
        label = [''reconstructed'', ''observed'', ''observed'']\<rparr>)"
  by (simp add: predict_def predict_estimate_def predict_align_def snap_and_filter_def Let_def
      example_defs np_defs)

lemma example_predict_two_data:
  "item (labelled_brain.data (projr (snd
      (predict example_helpers example_store 0 subject_two True Auto False 10)))) 0 1 =
   item (brain.data subject_two) 0 0"
  by (simp add: predict_def predict_estimate_def predict_align_def snap_and_filter_def Let_def
      example_defs np_defs fill_diagonal_def map_cells_def)

lemma example_predict_mixed:
  "\<exists>s d. predict example_helpers example_store 0 subject_mixed True Auto False 10 =
     (s, Inr \<lparr>data = d,
        locs = [(0, 0, 0), (2, 0, 0), (1, 0, 0), (5, 5, 5)],
        sessions = [SInt 1], sample_rate = [Some 1000],
        label = [''reconstructed'', ''reconstructed'', ''observed'', ''observed'']\<rparr>)"
  by (simp add: predict_def predict_estimate_def predict_align_def snap_and_filter_def Let_def
      example_defs np_defs)

theorem predict_locations_complete_witness:
  "snd (predict example_helpers example_store 0 subject_mixed True Auto False 10) =
     Inr (projr (snd (predict example_helpers example_store 0 subject_mixed True Auto False 10))) \<and>
   distinct (model.locs (models example_store ! 0)) \<and>
   distinct (brain.locs (snap_and_filter example_helpers example_store 0 subject_mixed True Auto 10)) \<and>
   labelled_brain.locs
     (projr (snd (predict example_helpers example_store 0 subject_mixed True Auto False 10))) =
     [(0, 0, 0), (2, 0, 0), (1, 0, 0), (5, 5, 5)] \<and>
   distinct (labelled_brain.locs
     (projr (snd (predict example_helpers example_store 0 subject_mixed True Auto False 10)))) \<and>
   set (labelled_brain.locs
     (projr (snd (predict example_helpers example_store 0 subject_mixed True Auto False 10)))) =
     set (model.locs (models example_store ! 0)) \<union>
     set (brain.locs (snap_and_filter example_helpers example_store 0 subject_mixed True Auto 10)) \<and>
   length (label
     (projr (snd (predict example_helpers example_store 0 subject_mixed True Auto False 10)))) =
   length (labelled_brain.locs
     (projr (snd (predict example_helpers example_store 0 subject_mixed True Auto False 10))))"
proof -
  let ?r = "projr (snd (predict example_helpers example_store 0 subject_mixed True Auto False 10))"
  from example_predict_mixed obtain s d where
    p: "predict example_helpers example_store 0 subject_mixed True Auto False 10 =
     (s, Inr \<lparr>data = d,
        locs = [(0, 0, 0), (2, 0, 0), (1, 0, 0), (5, 5, 5)],
        sessions = [SInt 1], sample_rate = [Some 1000],
        label = [''reconstructed'', ''reconstructed'', ''observed'', ''observed'']\<rparr>)"
    by blast
  have ok: "snd (predict example_helpers example_store 0 subject_mixed True Auto False 10) = Inr ?r"
    by (simp add: p)
  have ls: "labelled_brain.locs ?r = [(0, 0, 0), (2, 0, 0), (1, 0, 0), (5, 5, 5)]"
    by (simp add: p)
  have dm: "distinct (model.locs (models example_store ! 0))"
    by (simp add: example_store_def example_model_def example_locs_def)
  have db: "distinct (brain.locs
      (snap_and_filter example_helpers example_store 0 subject_mixed True Auto 10))"
    by (simp add: snap_and_filter_def example_helpers_def subject_mixed_def example_subject_def)
  from predict_locations_complete [OF ok dm db] ok ls dm db show ?thesis
    by blast
qed

lemma example_predict_twice:
  "\<exists>s d. predict example_helpers example_store 0 subject_twice True Auto False 10 =
     (s, Inr \<lparr>data = d,
        locs = [(1, 0, 0), (2, 0, 0), (0, 0, 0), (0, 0, 0)],
        sessions = [SInt 1], sample_rate = [Some 1000],
        label = [''reconstructed'', ''reconstructed'', ''observed'', ''observed'']\<rparr>) \<and>
     shape1 d = 3"
  by (simp add: predict_def predict_estimate_def predict_align_def snap_and_filter_def Let_def
      example_defs np_defs subject_twice_def fill_diagonal_def map_cells_def)

text \<open>
  C3, as the spec has it, fails: for a subject with two electrodes on the first model
  location, that location is returned twice.
\<close>

theorem predict_locations_duplicate_counterexample:
  "\<not> isl (snd (predict example_helpers example_store 0 subject_twice True Auto False 10)) \<and>
   brain.locs (snap_and_filter example_helpers example_store 0 subject_twice True Auto 10) =
     [(0, 0, 0), (0, 0, 0)] \<and>
   labelled_brain.locs
     (projr (snd (predict example_helpers example_store 0 subject_twice True Auto False 10))) =
     [(1, 0, 0), (2, 0, 0), (0, 0, 0), (0, 0, 0)] \<and>
   \<not> distinct (labelled_brain.locs
     (projr (snd (predict example_helpers example_store 0 subject_twice True Auto False 10)))) \<and>
   shape1 (labelled_brain.data
     (projr (snd (predict example_helpers example_store 0 subject_twice True Auto False 10)))) = 3"
proof -
  from example_predict_twice obtain s d where
    p: "predict example_helpers example_store 0 subject_twice True Auto False 10 =
     (s, Inr \<lparr>data = d,
        locs = [(1, 0, 0), (2, 0, 0), (0, 0, 0), (0, 0, 0)],
        sessions = [SInt 1], sample_rate = [Some 1000],
        label = [''reconstructed'', ''reconstructed'', ''observed'', ''observed'']\<rparr>)"
    and d: "shape1 d = 3"
    by blast
  have b: "brain.locs (snap_and_filter example_helpers example_store 0 subject_twice True Auto 10) =
     [(0, 0, 0), (0, 0, 0)]"
    by (simp add: snap_and_filter_def example_helpers_def subject_twice_def example_subject_def)
  show ?thesis
    by (simp add: p d b)
qed

text \<open>
  C6 fails in the case where every subject location is a model location. The subject is
  recorded at the third and the first model location, in that order. The permutation
  \<open>[1, 0, 2]\<close> puts the known rows of the matrix, and the returned locations, in the order
  of the model (first, third), while the observed columns that are joined to the
  reconstruction stay in the order of the subject (third, first): the column returned
  for the first model location holds the channel recorded at the third.
\<close>

theorem predict_subset_order_mismatch:
  "\<not> isl (snd (predict example_helpers example_store 0 subject_two True Auto False 10)) \<and>
   sorted_range_minus (length example_locs)
       (where_true (count_overlapping example_locs (brain.locs subject_two))) @
     sorted_set (where_true (count_overlapping example_locs (brain.locs subject_two))) =
     [1, 0, 2] \<and>
   labelled_brain.locs
     (projr (snd (predict example_helpers example_store 0 subject_two True Auto False 10))) =
     [(1, 0, 0), (0, 0, 0), (2, 0, 0)] \<and>
   label (projr (snd (predict example_helpers example_store 0 subject_two True Auto False 10))) =
     [''reconstructed'', ''observed'', ''observed''] \<and>
   brain.locs (snap_and_filter example_helpers example_store 0 subject_two True Auto 10) =
     [(2, 0, 0), (0, 0, 0)] \<and>
   drop 1 (labelled_brain.locs
     (projr (snd (predict example_helpers example_store 0 subject_two True Auto False 10)))) \<noteq>
     brain.locs (snap_and_filter example_helpers example_store 0 subject_two True Auto 10) \<and>
   item (labelled_brain.data
     (projr (snd (predict example_helpers example_store 0 subject_two True Auto False 10)))) 0 1 =
     item (brain.data subject_two) 0 0"
proof -
  from example_predict_two obtain s d where
    p: "predict example_helpers example_store 0 subject_two True Auto False 10 =
     (s, Inr \<lparr>data = d,
        locs = [(1, 0, 0), (0, 0, 0), (2, 0, 0)],
        sessions = [SInt 1], sample_rate = [Some 1000],
        label = [''reconstructed'', ''observed'', ''observed'']\<rparr>)"
    by blast
  have b: "brain.locs (snap_and_filter example_helpers example_store 0 subject_two True Auto 10) =
     [(2, 0, 0), (0, 0, 0)]"
    by (simp add: snap_and_filter_def example_helpers_def subject_two_def example_subject_def)
  have i: "sorted_range_minus (length example_locs)
       (where_true (count_overlapping example_locs (brain.locs subject_two))) @
     sorted_set (where_true (count_overlapping example_locs (brain.locs subject_two))) =
     [1, 0, 2]"
    by (simp add: np_defs example_defs)
  show ?thesis
    using example_predict_two_data by (simp add: p b i)
qed

subsection \<open>Model.update\<close>

lemma update_loop_invariant:
  assumes step: "\<And>bo k a b nx dx dx' a' b'. bo \<in> set bos \<Longrightarrow> I k a b \<Longrightarrow>
        update_contribution H ls meas thr bo = (nx, dx) \<Longrightarrow>
        zero_where_nan dx nx = Inr dx' \<Longrightarrow> nansum_dstack a nx = Inr a' \<Longrightarrow>
        iadd b dx' = Inr b' \<Longrightarrow> I (Suc k) a' b'"
    and init: "I k0 (arrays s ! num) (arrays s ! den)"
    and wf: "num < length (arrays s)" "den < length (arrays s)"
    and run: "update_loop H ls meas thr s num den n bos = (s', Inr (num', den', n'))"
  shows "I (k0 + length bos) (arrays s' ! num') (arrays s' ! den') \<and> num' < length (arrays s') \<and>
         den' = den \<and> den < length (arrays s') \<and> n' = n + int (length bos)"
  using step init wf run
proof (induction bos arbitrary: s num n k0)
  case Nil
  then show ?case by simp
next
  case (Cons bo bos)
  obtain nx dx where c: "update_contribution H ls meas thr bo = (nx, dx)"
    by (cases "update_contribution H ls meas thr bo")
  from Cons.prems(5) c obtain dx' where z: "zero_where_nan dx nx = Inr dx'"
    by (cases "zero_where_nan dx nx") simp_all
  from Cons.prems(5) c z obtain a where a: "nansum_dstack (arrays s ! num) nx = Inr a"
    by (cases "nansum_dstack (arrays s ! num) nx") simp_all
  let ?s1 = "s\<lparr>arrays := arrays s @ [a]\<rparr>"
  have d1: "arrays ?s1 ! den = arrays s ! den"
    using Cons.prems(4) by (simp add: nth_append)
  from Cons.prems(5) c z a d1 obtain b where b: "iadd (arrays s ! den) dx' = Inr b"
    by (cases "iadd (arrays s ! den) dx'") (simp_all add: alloc_def)
  let ?s2 = "store_array ?s1 den b"
  from Cons.prems(5) c z a d1 b
  have run': "update_loop H ls meas thr ?s2 (length (arrays s)) den (n + 1) bos = (s', Inr (num', den', n'))"
    by (simp add: alloc_def)
  have I': "I (Suc k0) a b"
    using Cons.prems(1) [OF _ Cons.prems(2) c z a b] by simp
  have an: "arrays ?s2 ! length (arrays s) = a"
    using Cons.prems(4) by (simp add: store_array_def nth_list_update)
  have ad: "arrays ?s2 ! den = b"
    using Cons.prems(4) by (simp add: store_array_def)
  have "I (Suc k0 + length bos) (arrays s' ! num') (arrays s' ! den') \<and> num' < length (arrays s') \<and>
         den' = den \<and> den < length (arrays s') \<and> n' = (n + 1) + int (length bos)"
  proof (rule Cons.IH [OF _ _ _ _ run'])
    show "I (Suc k0) (arrays ?s2 ! length (arrays s)) (arrays ?s2 ! den)"
      using I' an ad by simp
    show "length (arrays s) < length (arrays ?s2)"
      by (simp add: store_array_def)
    show "den < length (arrays ?s2)"
      using Cons.prems(4) by (simp add: store_array_def)
    fix bo' k a0 b0 nx0 dx0 dx0' a0' b0'
    assume "bo' \<in> set bos" "I k a0 b0" "update_contribution H ls meas thr bo' = (nx0, dx0)"
      "zero_where_nan dx0 nx0 = Inr dx0'" "nansum_dstack a0 nx0 = Inr a0'" "iadd b0 dx0' = Inr b0'"
    then show "I (Suc k) a0' b0'"
      using Cons.prems(1) [of bo' k a0 b0 nx0 dx0 dx0' a0' b0'] by simp
  qed
  then show ?case by auto
qed

lemma update_loop_frame:
  assumes "update_loop H ls meas thr s num den n bos = (s', res)"
    and "length (arrays s0) \<le> den" and "length (arrays s0) \<le> length (arrays s)"
    and "take (length (arrays s0)) (arrays s) = arrays s0"
  shows "take (length (arrays s0)) (arrays s') = arrays s0 \<and> models s' = models s \<and>
         length (arrays s) \<le> length (arrays s')"
  using assms
proof (induction bos arbitrary: s num n)
  case Nil
  then show ?case by auto
next
  case (Cons bo bos)
  obtain nx dx where c: "update_contribution H ls meas thr bo = (nx, dx)"
    by (cases "update_contribution H ls meas thr bo")
  show ?case
  proof (cases "zero_where_nan dx nx")
    case (Inl e)
    with Cons.prems c show ?thesis by auto
  next
    case z: (Inr dx')
    show ?thesis
    proof (cases "nansum_dstack (arrays s ! num) nx")
      case (Inl e)
      with Cons.prems c z show ?thesis by auto
    next
      case a: (Inr a)
      let ?s1 = "s\<lparr>arrays := arrays s @ [a]\<rparr>"
      show ?thesis
      proof (cases "iadd (arrays ?s1 ! den) dx'")
        case (Inl e)
        with Cons.prems c z a show ?thesis by (auto simp: alloc_def)
      next
        case b: (Inr b)
        let ?s2 = "store_array ?s1 den b"
        from Cons.prems(1) c z a b
        have r: "update_loop H ls meas thr ?s2 (length (arrays s)) den (n + 1) bos = (s', res)"
          by (simp add: alloc_def)
        have "take (length (arrays s0)) (arrays s') = arrays s0 \<and> models s' = models ?s2 \<and>
            length (arrays ?s2) \<le> length (arrays s')"
        proof (rule Cons.IH [OF r Cons.prems(2)])
          show "length (arrays s0) \<le> length (arrays ?s2)"
            using Cons.prems(3) by (simp add: store_array_def)
          show "take (length (arrays s0)) (arrays ?s2) = arrays s0"
            using Cons.prems(2,3,4) by (simp add: store_array_def)
        qed
        then show ?thesis
          by (simp add: store_array_def)
      qed
    qed
  qed
qed

lemma deepcopy_eq:
  assumes "numerator (models s ! self) < length (arrays s)"
    and "denominator (models s ! self) < length (arrays s)"
  shows "\<exists>b s1. deepcopy s self = (s1, length (models s)) \<and>
           models s1 = models s @ [(models s ! self)\<lparr>numerator := length (arrays s), denominator := b\<rparr>] \<and>
           take (length (arrays s)) (arrays s1) = arrays s \<and>
           length (arrays s) \<le> b \<and> b < length (arrays s1) \<and> length (arrays s) < length (arrays s1) \<and>
           arrays s1 ! length (arrays s) = arrays s ! numerator (models s ! self) \<and>
           arrays s1 ! b = arrays s ! denominator (models s ! self)"
proof (cases "denominator (models s ! self) = numerator (models s ! self)")
  case True
  with assms show ?thesis
    by (intro exI [of _ "length (arrays s)"])
       (simp add: deepcopy_def Let_def alloc_def new_model_def nth_append)
next
  case False
  with assms show ?thesis
    by (intro exI [of _ "Suc (length (arrays s))"])
       (simp add: deepcopy_def Let_def alloc_def new_model_def nth_append)
qed

lemma update_Inr:
  assumes run: "update H s self d meas thr = (s', Inr r)"
    and wf: "numerator (models s ! self) < length (arrays s)"
      "denominator (models s ! self) < length (arrays s)"
  shows "\<exists>s1 b s2 num' den' n'.
           models s1 = models s @ [(models s ! self)\<lparr>numerator := length (arrays s), denominator := b\<rparr>] \<and>
           take (length (arrays s)) (arrays s1) = arrays s \<and>
           length (arrays s) \<le> b \<and> b < length (arrays s1) \<and> length (arrays s) < length (arrays s1) \<and>
           arrays s1 ! length (arrays s) = arrays s ! numerator (models s ! self) \<and>
           arrays s1 ! b = arrays s ! denominator (models s ! self) \<and>
           update_loop H (model.locs (models s ! self)) meas thr s1 (length (arrays s)) b
             (n_subs (models s ! self)) (as_list d) = (s2, Inr (num', den', n')) \<and>
           arrays s' = arrays s2 \<and>
           r = length (models s2) \<and>
           models s' = models s2 @
             [\<lparr>numerator = num', denominator = den', locs = model.locs (models s ! self),
               n_subs = n', n_locs = length (model.locs (models s ! self)),
               date_created = strftime H, meta = None\<rparr>]"
proof -
  from deepcopy_eq [OF wf] obtain s1 b where
    dc: "deepcopy s self = (s1, length (models s))"
    and ms: "models s1 = models s @ [(models s ! self)\<lparr>numerator := length (arrays s), denominator := b\<rparr>]"
    and rest: "take (length (arrays s)) (arrays s1) = arrays s"
      "length (arrays s) \<le> b" "b < length (arrays s1)" "length (arrays s) < length (arrays s1)"
      "arrays s1 ! length (arrays s) = arrays s ! numerator (models s ! self)"
      "arrays s1 ! b = arrays s ! denominator (models s ! self)"
    by blast
  have mo: "models s1 ! length (models s) =
      (models s ! self)\<lparr>numerator := length (arrays s), denominator := b\<rparr>"
    by (simp add: ms)
  obtain s2 res where l: "update_loop H (model.locs (models s ! self)) meas thr s1 (length (arrays s)) b
             (n_subs (models s ! self)) (as_list d) = (s2, res)"
    by (cases "update_loop H (model.locs (models s ! self)) meas thr s1 (length (arrays s)) b
             (n_subs (models s ! self)) (as_list d)")
  from run dc mo l obtain num' den' n' where res: "res = Inr (num', den', n')"
    by (cases res) (auto simp: update_def Let_def)
  from run dc mo l res have
    "arrays s' = arrays s2 \<and> r = length (models s2) \<and>
     models s' = models s2 @
             [\<lparr>numerator = num', denominator = den', locs = model.locs (models s ! self),
               n_subs = n', n_locs = length (model.locs (models s ! self)),
               date_created = strftime H, meta = None\<rparr>]"
    by (auto simp: update_def Let_def Model_init_def attach_def new_model_def)
  with ms rest l res show ?thesis
    by blast
qed


lemma fl_add_zero_right: "fl_add x (Fin 0) = x"
  by (cases x) simp_all

lemma nan_to_zero_idem: "nan_to_zero (nan_to_zero x) = nan_to_zero x"
  by (cases x) simp_all

lemma nan_to_zero_isnan: "fl_isnan x \<Longrightarrow> nan_to_zero x = Fin 0"
  by (cases x) simp_all

lemma zero_where_nan_Inr:
  assumes "zero_where_nan dx nx = Inr dx'"
  shows "shape0 dx = shape0 nx \<and> shape1 dx = shape1 nx \<and>
         shape0 dx' = shape0 nx \<and> shape1 dx' = shape1 nx \<and>
         item dx' = (\<lambda>i j. if fl_isnan (item nx i j) then Fin 0 else item dx i j)"
  using assms by (auto simp: zero_where_nan_def split: if_splits)

lemma nansum_dstack_Inr:
  assumes "nansum_dstack a nx = Inr a'"
  shows "shape0 a = shape0 nx \<and> shape1 a = shape1 nx \<and>
         shape0 a' = shape0 nx \<and> shape1 a' = shape1 nx \<and>
         item a' = (\<lambda>i j. fl_add (nan_to_zero (item a i j)) (nan_to_zero (item nx i j)))"
  using assms by (auto simp: nansum_dstack_def split: if_splits)

lemma iadd_Inr_same_shape:
  assumes "iadd b dx = Inr b'" and "shape0 dx = shape0 b" and "shape1 dx = shape1 b"
  shows "shape0 b' = shape0 b \<and> shape1 b' = shape1 b \<and>
         (\<forall>i j. i < shape0 b \<and> j < shape1 b \<longrightarrow> item b' i j = fl_add (item b i j) (item dx i j))"
  using assms
  by (auto simp: iadd_def np_add_def broadcast2_def bdim_def split: sum.splits if_splits)

lemma np_divide_same_shape:
  assumes "shape0 b = shape0 a" and "shape1 b = shape1 a"
  shows "\<exists>q. np_divide a b = Inr q \<and> shape0 q = shape0 a \<and> shape1 q = shape1 a \<and>
           (\<forall>i j. i < shape0 a \<and> j < shape1 a \<longrightarrow> item q i j = fl_div (item a i j) (item b i j))"
  using assms by (auto simp: np_divide_def broadcast2_def bdim_def)

text \<open>
  C7. When \<open>update\<close> returns, take a cell inside the arrays of a model whose numerator and
  denominator have one shape, at which the expanded numerator of every new subject is
  NaN. The cell of the new numerator is the old value with NaN read as zero (the old value
  itself when there is no subject): the subjects add nothing. The cell of the new
  denominator is the old one: they add zero. If the old weight is zero and the old
  numerator is zero or NaN, the cell of the estimate \<open>numerator / denominator\<close> of the
  returned model is NaN, not a zero correlation.
\<close>

theorem update_nan_cell_absent:
  assumes run: "update H s self d meas thr = (s', Inr r)"
    and wf: "numerator (models s ! self) < length (arrays s)"
      "denominator (models s ! self) < length (arrays s)"
    and shapes: "shape0 (arrays s ! denominator (models s ! self)) =
                 shape0 (arrays s ! numerator (models s ! self))"
      "shape1 (arrays s ! denominator (models s ! self)) =
       shape1 (arrays s ! numerator (models s ! self))"
    and cell: "i < shape0 (arrays s ! numerator (models s ! self))"
      "j < shape1 (arrays s ! numerator (models s ! self))"
    and nan: "\<forall>bo \<in> set (as_list d).
        fl_isnan (item (fst (update_contribution H (model.locs (models s ! self)) meas thr bo)) i j)"
  shows "item (arrays s' ! numerator (models s' ! r)) i j =
           (if as_list d = [] then item (arrays s ! numerator (models s ! self)) i j
            else nan_to_zero (item (arrays s ! numerator (models s ! self)) i j)) \<and>
         item (arrays s' ! denominator (models s' ! r)) i j =
           item (arrays s ! denominator (models s ! self)) i j \<and>
         (item (arrays s ! denominator (models s ! self)) i j = Fin 0 \<and>
          item (arrays s ! numerator (models s ! self)) i j \<in> {Fin 0, NaN} \<longrightarrow>
            (\<exists>q. np_divide (arrays s' ! numerator (models s' ! r))
                           (arrays s' ! denominator (models s' ! r)) = Inr q \<and>
                 item q i j = NaN))"
proof -
  let ?m = "models s ! self"
  let ?R = "shape0 (arrays s ! numerator ?m)"
  let ?C = "shape1 (arrays s ! numerator ?m)"
  let ?v = "item (arrays s ! numerator ?m) i j"
  let ?w = "item (arrays s ! denominator ?m) i j"
  define I where "I = (\<lambda>(k::nat) (a::ndarray) (b::ndarray). shape0 a = ?R \<and> shape1 a = ?C \<and> shape0 b = ?R \<and> shape1 b = ?C \<and>
      item a i j = (if k = 0 then ?v else nan_to_zero ?v) \<and> item b i j = ?w)"
  from update_Inr [OF run wf] obtain s1 b s2 num' den' n' where
    s1: "arrays s1 ! length (arrays s) = arrays s ! numerator ?m"
      "arrays s1 ! b = arrays s ! denominator ?m"
      "b < length (arrays s1)" "length (arrays s) < length (arrays s1)"
    and loop: "update_loop H (model.locs ?m) meas thr s1 (length (arrays s)) b
             (n_subs ?m) (as_list d) = (s2, Inr (num', den', n'))"
    and s': "arrays s' = arrays s2" "r = length (models s2)"
      "models s' = models s2 @
             [\<lparr>numerator = num', denominator = den', locs = model.locs ?m,
               n_subs = n', n_locs = length (model.locs ?m),
               date_created = strftime H, meta = None\<rparr>]"
    by blast
  have init: "I 0 (arrays s1 ! length (arrays s)) (arrays s1 ! b)"
    using shapes by (simp add: I_def s1)
  have step: "I (Suc k) a' b'"
    if "bo \<in> set (as_list d)" "I k a b0" "update_contribution H (model.locs ?m) meas thr bo = (nx, dx)"
      "zero_where_nan dx nx = Inr dx'" "nansum_dstack a nx = Inr a'" "iadd b0 dx' = Inr b'"
    for bo k a b0 nx dx dx' a' b'
  proof -
    have n: "fl_isnan (item nx i j)"
      using nan that(1,3) by auto
    note z = zero_where_nan_Inr [OF that(4)]
    note a = nansum_dstack_Inr [OF that(5)]
    have sh: "shape0 dx' = shape0 b0" "shape1 dx' = shape1 b0"
      using z a that(2) by (simp_all add: I_def)
    note b = iadd_Inr_same_shape [OF that(6) sh]
    have "item b' i j = fl_add (item b0 i j) (item dx' i j)"
      using b cell that(2) by (simp add: I_def)
    moreover have "item dx' i j = Fin 0"
      using z n by simp
    moreover have "item a' i j = nan_to_zero (item a i j)"
      using a n by (simp add: nan_to_zero_isnan fl_add_zero_right)
    ultimately show ?thesis
      using that(2) a b by (auto simp: I_def fl_add_zero_right nan_to_zero_idem)
  qed
  have "I (0 + length (as_list d)) (arrays s2 ! num') (arrays s2 ! den') \<and>
      num' < length (arrays s2) \<and> den' = b \<and> b < length (arrays s2) \<and>
      n' = n_subs ?m + int (length (as_list d))"
  proof (rule update_loop_invariant [where I = I, OF _ init s1(4) s1(3) loop])
    fix bo k a b0 nx dx dx' a' b'
    assume "bo \<in> set (as_list d)" "I k a b0"
      "update_contribution H (model.locs ?m) meas thr bo = (nx, dx)"
      "zero_where_nan dx nx = Inr dx'" "nansum_dstack a nx = Inr a'" "iadd b0 dx' = Inr b'"
    then show "I (Suc k) a' b'"
      by (rule step)
  qed
  then have fin: "I (length (as_list d)) (arrays s2 ! num') (arrays s2 ! den')"
    by auto
  have r: "arrays s' ! numerator (models s' ! r) = arrays s2 ! num'"
    "arrays s' ! denominator (models s' ! r) = arrays s2 ! den'"
    by (simp_all add: s')
  from np_divide_same_shape [of "arrays s2 ! den'" "arrays s2 ! num'"] fin
  obtain q where q: "np_divide (arrays s2 ! num') (arrays s2 ! den') = Inr q"
    "\<forall>i j. i < ?R \<and> j < ?C \<longrightarrow> item q i j = fl_div (item (arrays s2 ! num') i j) (item (arrays s2 ! den') i j)"
    by (auto simp: I_def)
  have qc: "item q i j = fl_div (item (arrays s2 ! num') i j) (item (arrays s2 ! den') i j)"
    using q(2) cell by simp
  show ?thesis
    using fin q(1) qc unfolding r by (auto simp: I_def)
qed


lemma example_update_nan:
  "snd (update nan_helpers empty_store 0 (Many [subject_two, subject_mixed]) ''kurtosis'' 10) = Inr 2"
  by (simp add: update_def deepcopy_def update_contribution_def Model_init_def attach_def
      new_model_def as_list_def zero_where_nan_def nansum_dstack_def iadd_def Let_def
      nan_helpers_def empty_store_def example_defs np_defs)

lemma example_update_nan_contribution:
  "fl_isnan (item (fst (update_contribution nan_helpers example_locs ''kurtosis'' 10 bo)) 0 1)"
  by (simp add: update_contribution_def Let_def nan_helpers_def example_helpers_def)

theorem update_nan_cell_absent_witness:
  "snd (update nan_helpers empty_store 0 (Many [subject_two, subject_mixed]) ''kurtosis'' 10) = Inr 2 \<and>
   fl_isnan (item (fst (update_contribution nan_helpers (model.locs (models empty_store ! 0))
      ''kurtosis'' 10 subject_two)) 0 1) \<and>
   fl_isnan (item (fst (update_contribution nan_helpers (model.locs (models empty_store ! 0))
      ''kurtosis'' 10 subject_mixed)) 0 1) \<and>
   item (arrays empty_store ! numerator (models empty_store ! 0)) 0 1 = Fin 0 \<and>
   item (arrays empty_store ! denominator (models empty_store ! 0)) 0 1 = Fin 0 \<and>
   item (arrays (fst (update nan_helpers empty_store 0 (Many [subject_two, subject_mixed])
           ''kurtosis'' 10)) !
         numerator (models (fst (update nan_helpers empty_store 0 (Many [subject_two, subject_mixed])
           ''kurtosis'' 10)) ! 2)) 0 1 = Fin 0 \<and>
   item (arrays (fst (update nan_helpers empty_store 0 (Many [subject_two, subject_mixed])
           ''kurtosis'' 10)) !
         denominator (models (fst (update nan_helpers empty_store 0 (Many [subject_two, subject_mixed])
           ''kurtosis'' 10)) ! 2)) 0 1 = Fin 0 \<and>
   (\<exists>q. np_divide
          (arrays (fst (update nan_helpers empty_store 0 (Many [subject_two, subject_mixed])
             ''kurtosis'' 10)) !
           numerator (models (fst (update nan_helpers empty_store 0 (Many [subject_two, subject_mixed])
             ''kurtosis'' 10)) ! 2))
          (arrays (fst (update nan_helpers empty_store 0 (Many [subject_two, subject_mixed])
             ''kurtosis'' 10)) !
           denominator (models (fst (update nan_helpers empty_store 0 (Many [subject_two, subject_mixed])
             ''kurtosis'' 10)) ! 2)) = Inr q \<and>
        item q 0 1 = NaN)"
proof -
  let ?U = "update nan_helpers empty_store 0 (Many [subject_two, subject_mixed]) ''kurtosis'' 10"
  have run: "?U = (fst ?U, Inr 2)"
    using example_update_nan by (simp add: prod_eq_iff)
  have wf: "numerator (models empty_store ! 0) < length (arrays empty_store)"
    "denominator (models empty_store ! 0) < length (arrays empty_store)"
    by (simp_all add: empty_store_def example_model_def)
  have sh: "shape0 (arrays empty_store ! denominator (models empty_store ! 0)) =
      shape0 (arrays empty_store ! numerator (models empty_store ! 0))"
    "shape1 (arrays empty_store ! denominator (models empty_store ! 0)) =
      shape1 (arrays empty_store ! numerator (models empty_store ! 0))"
    by (simp_all add: empty_store_def example_model_def np_zeros_def)
  have cell: "0 < shape0 (arrays empty_store ! numerator (models empty_store ! 0))"
    "1 < shape1 (arrays empty_store ! numerator (models empty_store ! 0))"
    by (simp_all add: empty_store_def example_model_def np_zeros_def)
  have ml: "model.locs (models empty_store ! 0) = example_locs"
    by (simp add: empty_store_def example_model_def)
  have nan: "\<forall>bo \<in> set (as_list (Many [subject_two, subject_mixed])).
      fl_isnan (item (fst (update_contribution nan_helpers (model.locs (models empty_store ! 0))
        ''kurtosis'' 10 bo)) 0 1)"
    unfolding ml using example_update_nan_contribution by blast
  have v: "item (arrays empty_store ! numerator (models empty_store ! 0)) 0 1 = Fin 0"
    "item (arrays empty_store ! denominator (models empty_store ! 0)) 0 1 = Fin 0"
    by (simp_all add: empty_store_def example_model_def np_zeros_def)
  have ne: "as_list (Many [subject_two, subject_mixed]) \<noteq> []"
    by (simp add: as_list_def)
  from update_nan_cell_absent [OF run wf sh cell nan] v ne
  show ?thesis
    using example_update_nan example_update_nan_contribution [of subject_two]
      example_update_nan_contribution [of subject_mixed]
    unfolding ml by auto
qed

subsection \<open>The invariant of the accumulators\<close>




















subsection \<open>No operation writes into the Model it is called on\<close>

lemma prefix_trans:
  assumes "take (length ws) xs = ws" and "length ws \<le> length xs" and "take (length xs) ys = xs"
  shows "take (length ws) ys = ws"
proof -
  have "take (length ws) (take (length xs) ys) = take (length ws) ys"
    using assms(2) by (simp add: min_def)
  then show ?thesis
    using assms(1,3) by simp
qed

lemma predict_estimate_frame:
  assumes "predict_estimate H s self bo fu = (s1, r)"
  shows "models s1 = models s \<and> take (length (arrays s)) (arrays s1) = arrays s \<and>
         length (arrays s) \<le> length (arrays s1)"
  using assms
  by (auto simp: predict_estimate_def Let_def alloc_def split: sum.splits if_splits prod.splits)

lemma predict_align_frame:
  assumes "predict_align H s ml x bo bm = (s', r)"
  shows "models s' = models s \<and> take (length (arrays s)) (arrays s') = arrays s \<and>
         length (arrays s) \<le> length (arrays s')"
  using assms
  by (auto simp: predict_align_def Let_def alloc_def store_array_def
      split: sum.splits if_splits prod.splits)


lemma predict_frame:
  assumes "predict H s self bo nn mt fu k = (s', r)"
  shows "models s' = models s \<and> take (length (arrays s)) (arrays s') = arrays s"
proof -
  let ?bo = "snap_and_filter H s self bo nn mt k"
  obtain s1 e where e: "predict_estimate H s self ?bo fu = (s1, e)"
    by (cases "predict_estimate H s self ?bo fu")
  note f1 = predict_estimate_frame [OF e]
  show ?thesis
  proof (cases e)
    case (Inl err)
    with assms e f1 show ?thesis
      by (auto simp: predict_def Let_def)
  next
    case (Inr x)
    let ?ml = "model.locs (models s1 ! self)"
    let ?bm = "count_overlapping ?ml (brain.locs ?bo)"
    show ?thesis
    proof (cases "list_all id ?bm")
      case True
      with assms e Inr f1 show ?thesis
        by (auto simp: predict_def Let_def)
    next
      case False
      obtain s2 a where a: "predict_align H s1 ?ml x ?bo ?bm = (s2, a)"
        by (cases "predict_align H s1 ?ml x ?bo ?bm")
      note f2 = predict_align_frame [OF a]
      have p2: "take (length (arrays s)) (arrays s2) = arrays s"
        using prefix_trans [of "arrays s" "arrays s1" "arrays s2"] f1 f2 by simp
      have l2: "length (arrays s) \<le> length (arrays s2)"
        using f1 f2 by simp
      from assms e Inr False a have
        "s' = s2 \<or> (\<exists>q q'. s' = store_array (fst (alloc s2 q)) (length (arrays s2)) q')"
        by (auto simp: predict_def Let_def alloc_def split: sum.splits prod.splits)
      then show ?thesis
        using f1 f2 p2 l2 by (auto simp: alloc_def store_array_def)
    qed
  qed
qed

lemma deepcopy_frame:
  "\<exists>b s1 c. deepcopy s self = (s1, length (models s)) \<and> models s1 = models s @ [c] \<and>
      numerator c = length (arrays s) \<and> denominator c = b \<and> length (arrays s) \<le> b \<and>
      take (length (arrays s)) (arrays s1) = arrays s \<and> length (arrays s) \<le> length (arrays s1)"
proof (cases "denominator (models s ! self) = numerator (models s ! self)")
  case True
  then show ?thesis
    by (intro exI [of _ "length (arrays s)"])
       (simp add: deepcopy_def Let_def alloc_def new_model_def)
next
  case False
  then show ?thesis
    by (intro exI [of _ "Suc (length (arrays s))"])
       (simp add: deepcopy_def Let_def alloc_def new_model_def)
qed

lemma update_frame:
  assumes "update H s self d meas thr = (s', res)"
  shows "take (length (arrays s)) (arrays s') = arrays s \<and>
         take (length (models s)) (models s') = models s"
proof -
  from deepcopy_frame [of s self] obtain b s1 c where
    dc: "deepcopy s self = (s1, length (models s))"
    and ms: "models s1 = models s @ [c]"
    and c: "numerator c = length (arrays s)" "denominator c = b" "length (arrays s) \<le> b"
    and pre: "take (length (arrays s)) (arrays s1) = arrays s" "length (arrays s) \<le> length (arrays s1)"
    by blast
  have mo: "models s1 ! length (models s) = c"
    by (simp add: ms)
  obtain s2 l where l: "update_loop H (model.locs c) meas thr s1 (length (arrays s)) b (n_subs c)
      (as_list d) = (s2, l)"
    by (cases "update_loop H (model.locs c) meas thr s1 (length (arrays s)) b (n_subs c) (as_list d)")
  from update_loop_frame [OF l c(3) pre(2) pre(1)]
  have f: "take (length (arrays s)) (arrays s2) = arrays s" "models s2 = models s1"
    by simp_all
  from assms dc mo l c have "arrays s' = arrays s2 \<and> (models s' = models s2 \<or> (\<exists>m. models s' = models s2 @ [m]))"
    by (cases l)
       (auto simp: update_def Let_def Model_init_def attach_def new_model_def split: prod.splits)
  then show ?thesis
    using f ms by auto
qed

lemma update_loop_num:
  assumes "update_loop H ls meas thr s num den n bos = (s', Inr (num', den', n'))"
  shows "den' = den \<and> (num' = num \<or> length (arrays s) \<le> num')"
  using assms
proof (induction bos arbitrary: s num n)
  case Nil
  then show ?case by simp
next
  case (Cons bo bos)
  then show ?case
    by (fastforce simp: Let_def alloc_def store_array_def split: sum.splits prod.splits)
qed

text \<open>
  C2. For a Model of the store whose arrays are in the store, \<open>update\<close> (whether it returns
  or raises) leaves the object and the arrays of its numerator and denominator as they
  were; the Model it returns is another object, whose arrays are new ones. \<open>predict\<close>
  with \<open>force_update=True\<close> leaves the object and its two arrays as they were too: the
  contribution of the subject goes into new arrays only.
\<close>

theorem update_and_predict_leave_model:
  assumes "self < length (models s)"
    and "numerator (models s ! self) < length (arrays s)"
    and "denominator (models s ! self) < length (arrays s)"
  shows "models (fst (update H s self d meas thr)) ! self = models s ! self \<and>
         arrays (fst (update H s self d meas thr)) ! numerator (models s ! self) =
           arrays s ! numerator (models s ! self) \<and>
         arrays (fst (update H s self d meas thr)) ! denominator (models s ! self) =
           arrays s ! denominator (models s ! self) \<and>
         (\<forall>r. snd (update H s self d meas thr) = Inr r \<longrightarrow>
            r \<noteq> self \<and>
            length (arrays s) \<le> numerator (models (fst (update H s self d meas thr)) ! r) \<and>
            length (arrays s) \<le> denominator (models (fst (update H s self d meas thr)) ! r)) \<and>
         models (fst (predict H s self bo nn mt True k)) ! self = models s ! self \<and>
         arrays (fst (predict H s self bo nn mt True k)) ! numerator (models s ! self) =
           arrays s ! numerator (models s ! self) \<and>
         arrays (fst (predict H s self bo nn mt True k)) ! denominator (models s ! self) =
           arrays s ! denominator (models s ! self)"
proof -
  let ?U = "update H s self d meas thr"
  let ?P = "predict H s self bo nn mt True k"
  have nth_pre: "ys ! i = xs ! i" if "take (length xs) ys = xs" "i < length xs" for i and xs ys :: "'a list"
    using that by (metis nth_take)
  have u: "take (length (arrays s)) (arrays (fst ?U)) = arrays s"
    "take (length (models s)) (models (fst ?U)) = models s"
    using update_frame [of H s self d meas thr "fst ?U" "snd ?U"] by simp_all
  have p: "models (fst ?P) = models s" "take (length (arrays s)) (arrays (fst ?P)) = arrays s"
    using predict_frame [of H s self bo nn mt True k "fst ?P" "snd ?P"] by simp_all
  have new: "r \<noteq> self \<and> length (arrays s) \<le> numerator (models (fst ?U) ! r) \<and>
      length (arrays s) \<le> denominator (models (fst ?U) ! r)" if r: "snd ?U = Inr r" for r
  proof -
    have run: "?U = (fst ?U, Inr r)"
      using r by (simp add: prod_eq_iff)
    from update_Inr [OF run assms(2,3)] obtain s1 b s2 num' den' n' where
      ms: "models s1 = models s @ [(models s ! self)\<lparr>numerator := length (arrays s), denominator := b\<rparr>]"
      and pre: "take (length (arrays s)) (arrays s1) = arrays s"
      and b: "length (arrays s) \<le> b" "length (arrays s) < length (arrays s1)"
      and loop: "update_loop H (model.locs (models s ! self)) meas thr s1 (length (arrays s)) b
             (n_subs (models s ! self)) (as_list d) = (s2, Inr (num', den', n'))"
      and r': "r = length (models s2)"
        "models (fst ?U) = models s2 @
             [\<lparr>numerator = num', denominator = den', locs = model.locs (models s ! self),
               n_subs = n', n_locs = length (model.locs (models s ! self)),
               date_created = strftime H, meta = None\<rparr>]"
      by blast
    from update_loop_num [OF loop] b have "den' = b" "length (arrays s) \<le> num'"
      by auto
    moreover have "models s2 = models s1"
      using update_loop_frame [OF loop b(1) _ pre] b(2) by simp
    ultimately show ?thesis
      using r' ms b assms(1) by (simp add: nth_append)
  qed
  show ?thesis
    using nth_pre [OF u(1) assms(2)] nth_pre [OF u(1) assms(3)] nth_pre [OF u(2) assms(1)]
      nth_pre [OF p(2) assms(2)] nth_pre [OF p(2) assms(3)] p(1) new
    by simp
qed


lemma example_update:
  "snd (update example_helpers example_store 0 (One subject_apart) ''kurtosis'' 10) = Inr 2"
  by (simp add: update_def deepcopy_def update_contribution_def Model_init_def attach_def
      new_model_def as_list_def zero_where_nan_def nansum_dstack_def iadd_def Let_def
      example_defs np_defs)

theorem update_and_predict_leave_model_witness:
  "0 < length (models example_store) \<and>
   numerator (models example_store ! 0) < length (arrays example_store) \<and>
   denominator (models example_store ! 0) < length (arrays example_store) \<and>
   snd (update example_helpers example_store 0 (One subject_apart) ''kurtosis'' 10) = Inr 2 \<and>
   models (fst (update example_helpers example_store 0 (One subject_apart) ''kurtosis'' 10)) ! 0 =
     models example_store ! 0 \<and>
   arrays (fst (update example_helpers example_store 0 (One subject_apart) ''kurtosis'' 10)) !
       numerator (models example_store ! 0) =
     arrays example_store ! numerator (models example_store ! 0) \<and>
   arrays (fst (update example_helpers example_store 0 (One subject_apart) ''kurtosis'' 10)) !
       denominator (models example_store ! 0) =
     arrays example_store ! denominator (models example_store ! 0) \<and>
   length (arrays example_store) \<le>
     numerator (models (fst (update example_helpers example_store 0 (One subject_apart)
       ''kurtosis'' 10)) ! 2) \<and>
   length (arrays example_store) \<le>
     denominator (models (fst (update example_helpers example_store 0 (One subject_apart)
       ''kurtosis'' 10)) ! 2) \<and>
   models (fst (predict example_helpers example_store 0 subject_two True Auto True 10)) ! 0 =
     models example_store ! 0 \<and>
   arrays (fst (predict example_helpers example_store 0 subject_two True Auto True 10)) !
       numerator (models example_store ! 0) =
     arrays example_store ! numerator (models example_store ! 0) \<and>
   arrays (fst (predict example_helpers example_store 0 subject_two True Auto True 10)) !
       denominator (models example_store ! 0) =
     arrays example_store ! denominator (models example_store ! 0)"
proof -
  have wf: "0 < length (models example_store)"
    "numerator (models example_store ! 0) < length (arrays example_store)"
    "denominator (models example_store ! 0) < length (arrays example_store)"
    by (simp_all add: example_store_def example_model_def)
  from update_and_predict_leave_model [OF wf, of example_helpers "One subject_apart"
      "''kurtosis''" 10 subject_two True Auto 10] wf example_update
  show ?thesis
    by blast
qed

subsection \<open>The command-line driver\<close>

lemmas driver_defs = main_def Let_def path_join_def basename_def dirname_def splitext_root_def
  isfile_def isdir_def np_load_def mkdir_def savemat_def print_def example_env_def
  example_world_def

text \<open>
  What the driver does by its own check: it skips, with the message \<open>gif exists\<close>, when
  the file \<open>gif<name>_0_10.mat\<close> is in the gif directory; and it prints the diagnostic and
  writes nothing when \<open>good_chans\<close> returns an array of at most one row.
\<close>

lemma main_skips_on_marker:
  assumes "np_load w fname = Inr y"
    and "isdir w (path_join (get_grand_parent_dir E (getcwd E))
            (''gif_'' @ splitext_root (basename fname) @ ''_0_10''))"
    and "isfile w (path_join (path_join (get_grand_parent_dir E (getcwd E))
            (''gif_'' @ splitext_root (basename fname) @ ''_0_10''))
            (''gif'' @ splitext_root (basename fname) @ ''_0_10.mat''))"
  shows "main E w fname r k_thresh = (print w ''gif exists'', Inr ())"
  using assms by (simp add: main_def Let_def)

lemma main_too_few_channels:
  assumes "np_load w fname = Inr y"
    and "isdir w (path_join (get_grand_parent_dir E (getcwd E))
            (''gif_'' @ splitext_root (basename fname) @ ''_0_10''))"
    and "\<not> isfile w (path_join (path_join (get_grand_parent_dir E (getcwd E))
            (''gif_'' @ splitext_root (basename fname) @ ''_0_10''))
            (''gif'' @ splitext_root (basename fname) @ ''_0_10.mat''))"
    and "np_load w (path_join (path_join (get_grand_parent_dir E (getcwd E)) ''corr_matrices'')
            (''sub_corr_'' @ splitext_root (basename fname) @ ''.npz'')) = Inr c"
    and "good_chans E c k_thresh = Rows n" and "n \<le> 1"
  shows "main E w fname r k_thresh =
           (print w (''not enough electrodes pass k = '' @ k_thresh), Inr ())"
  using assms by (simp add: main_def Let_def)

text \<open>
  C9 fails twice. The output of the driver is \<open>gif_df.mat\<close>, but the file whose existence
  it checks is \<open>gif<name>_0_10.mat\<close>: with the output of an earlier run in place the
  pipeline runs again and replaces it. And when no channel passes, so that \<open>good_chans\<close>
  returns the list \<open>[]\<close>, the driver ends without printing anything.
\<close>

theorem main_output_exists_and_no_channel:
  "isfile (example_world ''two passing'') ''/d/gif_s1_0_10/gif_df.mat'' \<and>
   main example_env (example_world ''two passing'') ''/d/sub/s1.npz'' ''20'' ''10'' =
     ((example_world ''two passing'')
        \<lparr>files := (''/d/gif_s1_0_10/gif_df.mat'', ''new reconstruction'') #
                   files (example_world ''two passing'')\<rparr>, Inr ()) \<and>
   map_of (files (fst (main example_env (example_world ''two passing'') ''/d/sub/s1.npz'' ''20'' ''10'')))
      ''/d/gif_s1_0_10/gif_df.mat'' = Some ''new reconstruction'' \<and>
   good_chans example_env ''none passing'' ''10'' = EmptyList \<and>
   main example_env (example_world ''none passing'') ''/d/sub/s1.npz'' ''20'' ''10'' =
     (example_world ''none passing'', Inr ()) \<and>
   printed (fst (main example_env (example_world ''none passing'') ''/d/sub/s1.npz'' ''20'' ''10'')) = []"
  by (simp add: driver_defs)

lemma example_one_passing:
  "main example_env (example_world ''one passing'') ''/d/sub/s1.npz'' ''20'' ''10'' =
     (print (example_world ''one passing'') ''not enough electrodes pass k = 10'', Inr ())"
  by (simp add: driver_defs)

end
